theory Spec2Isabelle
  imports Complex_Main "HOL-Library.AList"
begin

section \<open>JavaScript values and objects\<close>

text \<open>
  The login code works on plain JavaScript objects: properties are read and written by
  name, copied by key list (\<open>filterObject\<close>) and merged by spread. An object is
  therefore a list of (property name, value) pairs in insertion order. Each name occurs
  at most once in an object the code builds, since every write goes through
  \<open>AList.update\<close>, which replaces the value of a name already there and appends a
  new name at the end, as assignment to a JavaScript property does.
\<close>

datatype val =
    Undefined
  | Null
  | Bool bool
  | Num int
  | Str string
  | Bytes "nat list"
  | Arr "val list"
  | Obj "(string \<times> val) list"

type_synonym props = "(string \<times> val) list"

text \<open>
  A node of a login tree (\<open>LoginStash\<close>, \<open>LoginReply\<close> and \<open>LoginTree\<close> have
  this one shape in the source, which walks all three with the same \<open>updateTree\<close>).
  The property \<open>children\<close> is the recursive one and is kept apart from the others;
  \<open>None\<close> is a node whose \<open>children\<close> is \<open>undefined\<close> or \<open>null\<close>.
\<close>

datatype node = Node (props: props) (children: "node list option")

type_synonym LoginStash = node
type_synonym LoginReply = node
type_synonym LoginTree = node

text \<open>\<open>o.key\<close>: reading a property that is not there gives \<open>undefined\<close>.\<close>

definition lookup :: "props \<Rightarrow> string \<Rightarrow> val" where
  "lookup ps key = (case map_of ps key of Some v \<Rightarrow> v | None \<Rightarrow> Undefined)"

definition getp :: "node \<Rightarrow> string \<Rightarrow> val" where
  "getp n key = lookup (props n) key"

text \<open>\<open>key in o\<close>: true also for a property that holds \<open>undefined\<close>.\<close>

definition has :: "string \<Rightarrow> props \<Rightarrow> bool" where
  "has key ps = (map_of ps key \<noteq> None)"

text \<open>\<open>x != null\<close> is false for \<open>null\<close> and for \<open>undefined\<close>.\<close>

fun notNull :: "val \<Rightarrow> bool" where
  "notNull Undefined = False"
| "notNull Null = False"
| "notNull _ = True"

text \<open>\<open>!x\<close> is true for \<open>undefined\<close>, \<open>null\<close>, \<open>false\<close>, \<open>0\<close> and the empty string.\<close>

fun truthy :: "val \<Rightarrow> bool" where
  "truthy Undefined = False"
| "truthy Null = False"
| "truthy (Bool b) = b"
| "truthy (Num i) = (i \<noteq> 0)"
| "truthy (Str s) = (s \<noteq> [])"
| "truthy _ = True"

text \<open>
  \<open>a === b\<close>: equality of primitive values. Two objects are \<open>===\<close> only when
  they are the same object, which values read from two different trees never are.
\<close>

fun primitive :: "val \<Rightarrow> bool" where
  "primitive (Bytes _) = False"
| "primitive (Arr _) = False"
| "primitive (Obj _) = False"
| "primitive _ = True"

definition strictEq :: "val \<Rightarrow> val \<Rightarrow> bool" where
  "strictEq a b = (primitive a \<and> a = b)"

text \<open>\<open>o[key] = v\<close>, and \<open>{ ...a, ...b }\<close> as the assignments of \<open>b\<close>'s properties in order.\<close>

definition setp :: "string \<Rightarrow> val \<Rightarrow> node \<Rightarrow> node" where
  "setp key v n = Node (AList.update key v (props n)) (children n)"

definition spread :: "props \<Rightarrow> props \<Rightarrow> props" where
  "spread a b = foldl (\<lambda>out (key, v). AList.update key v out) a b"

text \<open>\<open>node.children != null ? node.children : []\<close>\<close>

definition childrenOrEmpty :: "node \<Rightarrow> node list" where
  "childrenOrEmpty n = (case children n of None \<Rightarrow> [] | Some cs \<Rightarrow> cs)"

section \<open>Errors\<close>

text \<open>
  Every \<open>throw\<close> of the source and every failure of a collaborator it calls is a value
  of this type; a function that can throw returns \<open>error + 'a\<close>.
\<close>

datatype error =
    ServerLostChildren      \<comment> \<open>'The server has lost children!'\<close>
  | KeyIntegrity            \<comment> \<open>'Key integrity violation: No parentBox on child login.'\<close>
  | MissingAuth             \<comment> \<open>'No server authentication methods on login'\<close>
  | NoAuth                  \<comment> \<open>'No server authentication methods available'\<close>
  | MissingLogin            \<comment> \<open>'Cannot apply kit: missing login'\<close>
  | KitMissingUsername      \<comment> \<open>'Cannot apply kit: missing username'\<close>
  | SyncMissingUsername     \<comment> \<open>'Cannot sync: missing username'\<close>
  | SaveAppId               \<comment> \<open>'Cannot save a login without an appId.'\<close>
  | SaveLoginId             \<comment> \<open>'Cannot save a login without a loginId.'\<close>
  | SaveUsername            \<comment> \<open>'Cannot save a login without a username.'\<close>
  | InvalidLoginId          \<comment> \<open>'Invalid loginId'\<close>
  | TypeError               \<comment> \<open>\<open>keyBoxes.map\<close> on a value that is not an array\<close>
  | DecryptError            \<comment> \<open>\<open>decrypt\<close> or \<open>decryptText\<close> threw\<close>
  | ParseError              \<comment> \<open>\<open>base64.parse\<close> or \<open>JSON.parse\<close> threw\<close>
  | KeyInfoError            \<comment> \<open>\<open>mergeKeyInfos\<close> threw\<close>
  | StashError              \<comment> \<open>\<open>getStash\<close> threw\<close>
  | ServerError             \<comment> \<open>\<open>loginFetch\<close> rejected\<close>
  | DiskError               \<comment> \<open>\<open>disklet.setText\<close> rejected\<close>

definition bindE :: "error + 'a \<Rightarrow> ('a \<Rightarrow> error + 'b) \<Rightarrow> error + 'b" where
  "bindE m f = (case m of Inl e \<Rightarrow> Inl e | Inr x \<Rightarrow> f x)"

definition orThrow :: "error \<Rightarrow> 'a option \<Rightarrow> error + 'a" where
  "orThrow e m = (case m of None \<Rightarrow> Inl e | Some x \<Rightarrow> Inr x)"

text \<open>\<open>xs.map(f)\<close> where \<open>f\<close> can throw: the first exception ends the loop.\<close>

fun mapE :: "('a \<Rightarrow> error + 'b) \<Rightarrow> 'a list \<Rightarrow> error + 'b list" where
  "mapE f [] = Inr []"
| "mapE f (x # xs) =
     (case f x of
        Inl e \<Rightarrow> Inl e
      | Inr y \<Rightarrow> (case mapE f xs of Inl e \<Rightarrow> Inl e | Inr ys \<Rightarrow> Inr (y # ys)))"

lemma mapE_cong [fundef_cong]:
  "xs = ys \<Longrightarrow> (\<And>x. x \<in> set ys \<Longrightarrow> f x = g x) \<Longrightarrow> mapE f xs = mapE g ys"
  by (induction ys arbitrary: xs) (auto split: sum.splits)

lemma bindE_cong [fundef_cong]:
  "m = m' \<Longrightarrow> (\<And>x. m' = Inr x \<Longrightarrow> f x = g x) \<Longrightarrow> bindE m f = bindE m' g"
  by (auto simp: bindE_def split: sum.splits)

section \<open>util: filterObject and softCat\<close>

text \<open>
  \<open>filterObject (source, keys)\<close> starts from the empty object and, for each key in
  order, copies the property when \<open>key in source\<close>. No caller passes the key
  \<open>children\<close>, so the result has none.
\<close>

definition filterObject :: "node \<Rightarrow> string list \<Rightarrow> node" where
  "filterObject source keys =
     Node (foldl (\<lambda>out key. if has key (props source)
                              then AList.update key (lookup (props source) key) out
                              else out) [] keys) None"

text \<open>
  \<open>softCat (...lists)\<close> is \<open>[].concat(...lists.filter(list => list != null))\<close>.
  An argument is \<open>None\<close> when it is \<open>null\<close> or \<open>undefined\<close>; \<open>asArray\<close> reads
  a value as such an argument (\<open>concat\<close> appends the elements of an array and any
  other value itself).
\<close>

definition softCat :: "'a list option list \<Rightarrow> 'a list" where
  "softCat arrays = concat (map the (filter (\<lambda>l. l \<noteq> None) arrays))"

fun asArray :: "val \<Rightarrow> val list option" where
  "asArray Undefined = None"
| "asArray Null = None"
| "asArray (Arr xs) = Some xs"
| "asArray v = Some [v]"

section \<open>The tree engine\<close>

text \<open>\<open>cloneNode\<close> is \<open>{ ...node, children }\<close>.\<close>

definition cloneNode :: "node \<Rightarrow> node list \<Rightarrow> error + node" where
  "cloneNode n cs = Inr (Node (props n) (Some cs))"

lemma size_childrenOrEmpty:
  "c \<in> set (childrenOrEmpty n) \<Longrightarrow> size c < size n"
  by (cases n) (auto simp: childrenOrEmpty_def split: option.splits dest: size_list_estimation'[where f = size and y = "size c"])

text \<open>
  \<open>searchTree\<close>: the node itself when the predicate holds, else the first hit among
  the children, searched in order; \<open>None\<close> is \<open>undefined\<close>.
\<close>

fun firstSome :: "('a \<Rightarrow> 'b option) \<Rightarrow> 'a list \<Rightarrow> 'b option" where
  "firstSome f [] = None"
| "firstSome f (x # xs) = (case f x of Some y \<Rightarrow> Some y | None \<Rightarrow> firstSome f xs)"

lemma firstSome_cong [fundef_cong]:
  "xs = ys \<Longrightarrow> (\<And>x. x \<in> set ys \<Longrightarrow> f x = g x) \<Longrightarrow> firstSome f xs = firstSome g ys"
  by (induction ys arbitrary: xs) (auto split: option.splits)

function searchTree :: "node \<Rightarrow> (node \<Rightarrow> bool) \<Rightarrow> node option" where
  "searchTree n predicate =
     (if predicate n then Some n
      else firstSome (\<lambda>child. searchTree child predicate) (childrenOrEmpty n))"
  by pat_completeness auto
termination
  by (relation "measure (\<lambda>(n, p). size n)") (auto simp: size_childrenOrEmpty)

text \<open>
  \<open>updateTree\<close>: a node the predicate accepts is replaced by \<open>update (node)\<close> and not
  descended into; any other node is rebuilt by \<open>clone\<close> from its updated children.
\<close>

function updateTree ::
  "node \<Rightarrow> (node \<Rightarrow> bool) \<Rightarrow> (node \<Rightarrow> error + node) \<Rightarrow> (node \<Rightarrow> node list \<Rightarrow> error + node)
     \<Rightarrow> error + node" where
  "updateTree n predicate update clone =
     (if predicate n then update n
      else bindE (mapE (\<lambda>child. updateTree child predicate update clone) (childrenOrEmpty n))
                 (\<lambda>cs. clone n cs))"
  by pat_completeness auto
termination
  by (relation "measure (\<lambda>(n, p, u, c). size n)") (auto simp: size_childrenOrEmpty)

declare searchTree.simps [simp del] updateTree.simps [simp del]

section \<open>sanitizeLoginStash\<close>

definition sanitizeLoginStash :: "LoginStash \<Rightarrow> val \<Rightarrow> error + LoginStash" where
  "sanitizeLoginStash stashTree appId =
     updateTree stashTree
       (\<lambda>stash. strictEq (getp stash ''appId'') appId)
       (\<lambda>stash. Inr stash)
       (\<lambda>stash cs. Inr (Node (props (filterObject stash [''username'', ''appId'', ''loginId''])) (Some cs)))"

section \<open>Collaborators outside the login code\<close>

text \<open>
  The functions the login code imports from the crypto, encoding, key and server modules
  and from its libraries are parameters of the model, collected in one record. A function
  that can throw returns an option, and \<open>None\<close> is its exception. \<open>now\<close> is the value
  of \<open>new Date()\<close>. What \<open>loginFetch\<close> and \<open>disklet.setText\<close> answer depends on
  their arguments only; that they were called is recorded as an effect (below).
\<close>

record ext =
  decrypt :: "val \<Rightarrow> val \<Rightarrow> val option"
  decryptText :: "val \<Rightarrow> val \<Rightarrow> val option"
  hmacSha256 :: "val \<Rightarrow> val \<Rightarrow> val"
  utf8_parse :: "string \<Rightarrow> val"
  base64_stringify :: "val \<Rightarrow> val"
  base64_parse :: "val \<Rightarrow> nat list option"
  base58_stringify :: "nat list \<Rightarrow> string"
  json_parse :: "val \<Rightarrow> val option"
  json_stringify :: "node \<Rightarrow> string"
  makeKeyInfo :: "val \<Rightarrow> props \<Rightarrow> val \<Rightarrow> val"
  makeAccountType :: "val \<Rightarrow> val"
  mergeKeyInfos :: "val list \<Rightarrow> val list option"
  fixWalletInfo :: "val \<Rightarrow> val"
  totp :: "val \<Rightarrow> val"
  now :: val
  getStash :: "val \<Rightarrow> node option"
  loginFetch :: "string \<Rightarrow> string \<Rightarrow> props \<Rightarrow> node option"
  setText :: "string \<Rightarrow> string \<Rightarrow> bool"

section \<open>The reply reconciler\<close>

definition allowlist :: "string list" where
  "allowlist =
     [''appId'', ''created'', ''loginId'', ''loginAuthBox'', ''userId'', ''otpKey'',
      ''otpResetDate'', ''otpTimeout'', ''parentBox'', ''passwordAuthBox'',
      ''passwordAuthSnrp'', ''passwordBox'', ''passwordKeySnrp'', ''pin2TextBox'',
      ''mnemonicBox'', ''rootKeyBox'', ''syncKeyBox'']"

text \<open>\<open>if (stash.key != null) out.key = stash.key\<close>\<close>

definition preserve :: "node \<Rightarrow> string \<Rightarrow> node \<Rightarrow> node" where
  "preserve stash key out =
     (if notNull (getp stash key) then setp key (getp stash key) out else out)"

text \<open>
  \<open>if (loginReply.box != null) out.key = base64.stringify(decrypt(loginReply.box, loginKey))\<close>
\<close>

definition storeKey :: "ext \<Rightarrow> node \<Rightarrow> val \<Rightarrow> string \<Rightarrow> string \<Rightarrow> node \<Rightarrow> error + node" where
  "storeKey x loginReply loginKey box key out =
     (if notNull (getp loginReply box)
      then bindE (orThrow DecryptError (decrypt x (getp loginReply box) loginKey))
             (\<lambda>k. Inr (setp key (base64_stringify x k) out))
      else Inr out)"

lemma size_zip_children:
  "(child, index) \<in> set (zip (childrenOrEmpty n) is) \<Longrightarrow> size child < size n"
  by (auto dest: set_zip_leftD simp: size_childrenOrEmpty)

function applyLoginReplyInner :: "ext \<Rightarrow> LoginStash \<Rightarrow> val \<Rightarrow> LoginReply \<Rightarrow> error + LoginStash" where
  "applyLoginReplyInner x stash loginKey loginReply =
     (let out = filterObject loginReply allowlist;
          out = preserve stash ''lastLogin'' out;
          out = preserve stash ''username'' out;
          out = preserve stash ''userId'' out
      in bindE (storeKey x loginReply loginKey ''pin2KeyBox'' ''pin2Key'' out) (\<lambda>out.
         bindE (storeKey x loginReply loginKey ''recovery2KeyBox'' ''recovery2Key'' out) (\<lambda>out.
         let out = setp ''keyBoxes''
                     (if notNull (getp loginReply ''keyBoxes'')
                      then getp loginReply ''keyBoxes'' else Arr []) out;
             stashChildren = childrenOrEmpty stash;
             replyChildren = childrenOrEmpty loginReply
         in if length stashChildren > length replyChildren then Inl ServerLostChildren
            else bindE
              (mapE (\<lambda>(child, index).
                  if \<not> truthy (getp child ''parentBox'') then Inl KeyIntegrity
                  else bindE (orThrow DecryptError (decrypt x (getp child ''parentBox'') loginKey))
                    (\<lambda>childKey.
                       let childStash =
                             (if index < length stashChildren then stashChildren ! index
                              else Node [(''appId'', getp child ''appId''),
                                         (''loginId'', getp child ''loginId'')] None)
                       in applyLoginReplyInner x childStash childKey child))
                (zip replyChildren [0..<length replyChildren]))
              (\<lambda>cs. Inr (Node (props out) (Some cs))))))"
  by pat_completeness auto
termination
  by (relation "measure (\<lambda>(x, stash, loginKey, loginReply). size loginReply)")
     (auto simp: size_zip_children)

declare applyLoginReplyInner.simps [simp del]

definition applyLoginReply :: "ext \<Rightarrow> LoginStash \<Rightarrow> val \<Rightarrow> LoginReply \<Rightarrow> error + LoginStash" where
  "applyLoginReply x stashTree loginKey loginReply =
     updateTree stashTree
       (\<lambda>stash. strictEq (getp stash ''appId'') (getp loginReply ''appId''))
       (\<lambda>stash. applyLoginReplyInner x stash loginKey loginReply)
       cloneNode"

section \<open>The reply reconciler on a store\<close>

text \<open>
  JavaScript objects are mutable and are passed by reference, so whether a call changes
  an object it was given is a property of the store and not of the value the call
  returns. This section writes \<open>applyLoginReply\<close> once more with the store explicit.
  The objects of a stash tree live in a store and a node is known by its address;
  \<open>filterObject\<close>, an object literal and \<open>cloneNode\<close> allocate a new object; an
  assignment \<open>out.key = v\<close> changes the object at the address \<open>out\<close> in place. The
  store is the list of its objects and the address of an object is its index.

  A property other than \<open>children\<close> holds a value: the code assigns properties of
  nodes and never writes into the value of one. \<open>children\<close> holds the addresses of the
  child nodes; the code builds such an array with \<open>map\<close> and never changes one in
  place, so the array is kept inside the object that owns it. The reply is only read,
  and stays a value. Reading at an address outside the store is unspecified, as a
  reference always points to an object.
\<close>

datatype hnode = HNode (hprops: props) (hchildren: "nat list option")

type_synonym heap = "hnode list"






text \<open>
  A function that can throw returns the error or its result together with the store it
  leaves behind; \<open>mapH\<close> is \<open>xs.map(f)\<close>, where the first exception ends the loop.
\<close>

definition bindH ::
  "(error + 'a) \<times> heap \<Rightarrow> ('a \<Rightarrow> heap \<Rightarrow> (error + 'b) \<times> heap) \<Rightarrow> (error + 'b) \<times> heap" where
  "bindH m f = (case m of (Inl e, h) \<Rightarrow> (Inl e, h) | (Inr v, h) \<Rightarrow> f v h)"

fun mapH :: "('a \<Rightarrow> heap \<Rightarrow> (error + 'b) \<times> heap) \<Rightarrow> 'a list \<Rightarrow> heap \<Rightarrow> (error + 'b list) \<times> heap" where
  "mapH f [] h = (Inr [], h)"
| "mapH f (x # xs) h =
     bindH (f x h) (\<lambda>y h. bindH (mapH f xs h) (\<lambda>ys h. (Inr (y # ys), h)))"

lemma mapH_cong [fundef_cong]:
  "xs = ys \<Longrightarrow> h = h' \<Longrightarrow> (\<And>x h. x \<in> set ys \<Longrightarrow> f x h = g x h) \<Longrightarrow> mapH f xs h = mapH g ys h'"
  by (induction ys arbitrary: xs h h') (auto simp: bindH_def split: prod.splits sum.splits)

lemma bindH_cong [fundef_cong]:
  "m = m' \<Longrightarrow> (\<And>v h. m' = (Inr v, h) \<Longrightarrow> f v h = g v h) \<Longrightarrow> bindH m f = bindH m' g"
  by (auto simp: bindH_def split: prod.splits sum.splits)









section \<open>The login tree builder\<close>

text \<open>\<open>if (stash.box != null) login.key = f(stash.box)\<close>, where \<open>f\<close> can throw.\<close>

definition whenPresent ::
  "node \<Rightarrow> string \<Rightarrow> string \<Rightarrow> (val \<Rightarrow> error + val) \<Rightarrow> node \<Rightarrow> error + node" where
  "whenPresent stash box key f login =
     (if notNull (getp stash box)
      then bindE (f (getp stash box)) (\<lambda>v. Inr (setp key v login))
      else Inr login)"

text \<open>The BitID wallet and the account settings, pushed onto \<open>legacyKeys\<close> in this order.\<close>

definition bitidKeys :: "ext \<Rightarrow> LoginStash \<Rightarrow> val \<Rightarrow> error + val list" where
  "bitidKeys x stash loginKey =
     (if notNull (getp stash ''mnemonicBox'') \<and> notNull (getp stash ''rootKeyBox'')
      then bindE (orThrow DecryptError (decrypt x (getp stash ''rootKeyBox'') loginKey)) (\<lambda>rootKey.
           let infoKey = hmacSha256 x rootKey (utf8_parse x ''infoKey'')
           in bindE (orThrow DecryptError (decryptText x (getp stash ''mnemonicBox'') infoKey))
                (\<lambda>mnemonic.
                   Inr [makeKeyInfo x (Str ''wallet:bitid'')
                          [(''mnemonic'', mnemonic), (''rootKey'', base64_stringify x rootKey)]
                          rootKey]))
      else Inr [])"

definition accountKeys :: "ext \<Rightarrow> LoginStash \<Rightarrow> val \<Rightarrow> val \<Rightarrow> error + val list" where
  "accountKeys x stash loginKey appId =
     (if notNull (getp stash ''syncKeyBox'')
      then bindE (orThrow DecryptError (decrypt x (getp stash ''syncKeyBox'') loginKey)) (\<lambda>syncKey.
           Inr [makeKeyInfo x (makeAccountType x appId)
                  [(''syncKey'', base64_stringify x syncKey),
                   (''dataKey'', base64_stringify x loginKey)]
                  loginKey])
      else Inr [])"

text \<open>
  \<open>keyBoxes = []\<close> by default, then
  \<open>keyBoxes.map(box => JSON.parse(decryptText(box, loginKey)))\<close>.
\<close>

definition keyBoxInfos :: "ext \<Rightarrow> LoginStash \<Rightarrow> val \<Rightarrow> error + val list" where
  "keyBoxInfos x stash loginKey =
     (case getp stash ''keyBoxes'' of
        Undefined \<Rightarrow> Inr []
      | Arr keyBoxes \<Rightarrow>
          mapE (\<lambda>box. bindE (orThrow DecryptError (decryptText x box loginKey))
                        (\<lambda>text. orThrow ParseError (json_parse x text))) keyBoxes
      | _ \<Rightarrow> Inl TypeError)"

function makeLoginTreeInner :: "ext \<Rightarrow> LoginStash \<Rightarrow> val \<Rightarrow> error + LoginTree" where
  "makeLoginTreeInner x stash loginKey =
     (let lastLogin = (if getp stash ''lastLogin'' = Undefined then now x
                       else getp stash ''lastLogin'');
          login = Node [(''appId'', getp stash ''appId''),
                        (''created'', getp stash ''created''),
                        (''lastLogin'', lastLogin),
                        (''loginId'', getp stash ''loginId''),
                        (''otpKey'', getp stash ''otpKey''),
                        (''otpResetDate'', getp stash ''otpResetDate''),
                        (''otpTimeout'', getp stash ''otpTimeout''),
                        (''userId'', getp stash ''userId''),
                        (''username'', getp stash ''username''),
                        (''loginKey'', loginKey),
                        (''keyInfos'', Arr [])] (Some [])
      in bindE (whenPresent stash ''loginAuthBox'' ''loginAuth''
                  (\<lambda>box. orThrow DecryptError (decrypt x box loginKey)) login) (\<lambda>login.
         bindE (whenPresent stash ''passwordAuthBox'' ''passwordAuth''
                  (\<lambda>box. orThrow DecryptError (decrypt x box loginKey))
                  (if notNull (getp stash ''passwordAuthBox'') \<and> \<not> notNull (getp login ''userId'')
                   then setp ''userId'' (getp stash ''loginId'') login else login)) (\<lambda>login.
         if \<not> notNull (getp login ''loginAuth'') \<and> \<not> notNull (getp login ''passwordAuth'')
         then Inl MissingAuth
         else
         bindE (whenPresent stash ''pin2Key'' ''pin2Key''
                  (\<lambda>key. map_sum id Bytes (orThrow ParseError (base64_parse x key))) login) (\<lambda>login.
         bindE (whenPresent stash ''pin2TextBox'' ''pin''
                  (\<lambda>box. orThrow DecryptError (decryptText x box loginKey)) login) (\<lambda>login.
         bindE (whenPresent stash ''recovery2Key'' ''recovery2Key''
                  (\<lambda>key. map_sum id Bytes (orThrow ParseError (base64_parse x key))) login) (\<lambda>login.
         bindE (bitidKeys x stash loginKey) (\<lambda>bitid.
         bindE (accountKeys x stash loginKey (getp login ''appId'')) (\<lambda>account.
         bindE (keyBoxInfos x stash loginKey) (\<lambda>keyInfos.
         bindE (orThrow KeyInfoError (mergeKeyInfos x (bitid @ account @ keyInfos))) (\<lambda>merged.
         let login = setp ''keyInfos'' (Arr (map (fixWalletInfo x) merged)) login
         in bindE
              (mapE (\<lambda>child.
                  if \<not> truthy (getp child ''parentBox'') then Inl KeyIntegrity
                  else bindE (orThrow DecryptError (decrypt x (getp child ''parentBox'') loginKey))
                         (\<lambda>childKey. makeLoginTreeInner x child childKey))
                (childrenOrEmpty stash))
              (\<lambda>cs. Inr (Node (props login) (Some cs)))))))))))))"
  by pat_completeness auto
termination
  by (relation "measure (\<lambda>(x, stash, loginKey). size stash)")
     (auto simp: size_childrenOrEmpty)

declare makeLoginTreeInner.simps [simp del]

text \<open>\<open>appId\<close> has the default \<open>''\<close>, which JavaScript takes when the argument is \<open>undefined\<close>.\<close>

definition makeLoginTree :: "ext \<Rightarrow> LoginStash \<Rightarrow> val \<Rightarrow> val \<Rightarrow> error + LoginTree" where
  "makeLoginTree x stashTree loginKey appId0 =
     (let appId = (if appId0 = Undefined then Str [] else appId0)
      in updateTree stashTree
           (\<lambda>stash. strictEq (getp stash ''appId'') appId)
           (\<lambda>stash. makeLoginTreeInner x stash loginKey)
           (\<lambda>stash cs. Inr (Node (props (filterObject stash [''username'', ''appId'', ''loginId'']))
                                (Some cs))))"

section \<open>One-time passwords\<close>

definition getLoginOtp :: "ext \<Rightarrow> LoginTree \<Rightarrow> val" where
  "getLoginOtp x login =
     (if notNull (getp login ''otpKey'') then totp x (getp login ''otpKey'') else Undefined)"

text \<open>
  \<open>/[0-9]+/.test(otp)\<close>: the expression has no anchors, so the test looks for a match
  starting at any position of the string; a match is one digit or more.
\<close>

definition isDigit :: "char \<Rightarrow> bool" where
  "isDigit c = (c \<in> set ''0123456789'')"

fun matchDigits :: "string \<Rightarrow> bool" where
  "matchDigits [] = False"
| "matchDigits (c # cs) = isDigit c"

fun testDigits :: "string \<Rightarrow> bool" where
  "testDigits [] = matchDigits []"
| "testDigits (c # cs) = (matchDigits (c # cs) \<or> testDigits cs)"

text \<open>\<open>EdgeAccountOptions\<close>, as far as \<open>getStashOtp\<close> reads it: two optional strings.\<close>

record EdgeAccountOptions =
  opts_otp :: "string option"
  opts_otpKey :: "string option"

definition getStashOtp :: "ext \<Rightarrow> LoginStash \<Rightarrow> EdgeAccountOptions \<Rightarrow> val" where
  "getStashOtp x stash opts =
     (let otpKey = (case opts_otpKey opts of None \<Rightarrow> getp stash ''otpKey'' | Some k \<Rightarrow> Str k)
      in case opts_otp opts of
           Some otp \<Rightarrow>
             if testDigits otp \<and> length otp < 16 then Str otp else totp x (Str otp)
         | None \<Rightarrow> if notNull otpKey then totp x otpKey else Undefined)"

section \<open>Server authentication\<close>

definition makeAuthJson :: "ext \<Rightarrow> LoginTree \<Rightarrow> error + props" where
  "makeAuthJson x login =
     (if notNull (getp login ''loginAuth'')
      then Inr [(''loginId'', getp login ''loginId''),
                (''loginAuth'', base64_stringify x (getp login ''loginAuth'')),
                (''otp'', getLoginOtp x login)]
      else if notNull (getp login ''passwordAuth'')
      then Inr [(''userId'', getp login ''userId''),
                (''passwordAuth'', base64_stringify x (getp login ''passwordAuth'')),
                (''otp'', getLoginOtp x login)]
      else Inl NoAuth)"

section \<open>The stash store\<close>

text \<open>
  What a function does to the world outside is the list of the calls it makes, in order:
  \<open>io.disklet.setText (path, text)\<close>, \<open>dispatch ({ type, payload })\<close> and
  \<open>loginFetch (ai, method, path, request)\<close>. An asynchronous function returns its
  result (or the error that rejects its promise) together with that list.
\<close>

datatype effect =
    SetText string string
  | Dispatch string node
  | Fetch string string props

definition saveStash :: "ext \<Rightarrow> LoginStash \<Rightarrow> (error + unit) \<times> effect list" where
  "saveStash x stashTree =
     (if \<not> strictEq (getp stashTree ''appId'') (Str []) then (Inl SaveAppId, [])
      else if \<not> notNull (getp stashTree ''loginId'') then (Inl SaveLoginId, [])
      else if \<not> notNull (getp stashTree ''username'') then (Inl SaveUsername, [])
      else case base64_parse x (getp stashTree ''loginId'') of
             None \<Rightarrow> (Inl ParseError, [])
           | Some loginId \<Rightarrow>
               if length loginId \<noteq> 32 then (Inl InvalidLoginId, [])
               else let path = ''logins/'' @ base58_stringify x loginId @ ''.json'';
                        text = json_stringify x stashTree
                    in if setText x path text
                       then (Inr (), [SetText path text, Dispatch ''LOGIN_STASH_SAVED'' stashTree])
                       else (Inl DiskError, [SetText path text]))"

section \<open>Kits and sync\<close>

record LoginKit =
  kit_loginId :: val
  kit_serverMethod :: "string option"
  kit_serverPath :: string
  kit_server :: val
  kit_stash :: node
  kit_login :: node

text \<open>
  The two updates of \<open>applyKit\<close>: \<open>{ ...node, ...delta, children: softCat (...),
  keyInfos: mergeKeyInfos (softCat (...)) }\<close> for the login and the same with
  \<open>keyBoxes: softCat (...)\<close> for the stash.
\<close>

definition kitLogin :: "ext \<Rightarrow> node \<Rightarrow> LoginTree \<Rightarrow> error + LoginTree" where
  "kitLogin x delta login =
     bindE (orThrow KeyInfoError
              (mergeKeyInfos x (softCat [asArray (getp login ''keyInfos''),
                                         asArray (getp delta ''keyInfos'')])))
       (\<lambda>keyInfos.
          Inr (Node (AList.update ''keyInfos'' (Arr keyInfos) (spread (props login) (props delta)))
                 (Some (softCat [children login, children delta]))))"

definition kitStash :: "node \<Rightarrow> LoginStash \<Rightarrow> error + LoginStash" where
  "kitStash delta stash =
     Inr (Node (AList.update ''keyBoxes''
                  (Arr (softCat [asArray (getp stash ''keyBoxes''),
                                 asArray (getp delta ''keyBoxes'')]))
                  (spread (props stash) (props delta)))
            (Some (softCat [children stash, children delta])))"

text \<open>\<open>saveStash (ai, newStashTree).then (() => newLoginTree)\<close>\<close>

definition saveThen :: "ext \<Rightarrow> LoginStash \<Rightarrow> LoginTree \<Rightarrow> (error + LoginTree) \<times> effect list" where
  "saveThen x newStashTree newLoginTree =
     (case saveStash x newStashTree of
        (Inl e, effects) \<Rightarrow> (Inl e, effects)
      | (Inr u, effects) \<Rightarrow> (Inr newLoginTree, effects))"

text \<open>
  \<open>loginFetch (...).then (reply => ...)\<close>: the request is made; when the server
  answers, the callback runs, and what it does follows the request.
\<close>

definition fetchThen ::
  "ext \<Rightarrow> string \<Rightarrow> string \<Rightarrow> props \<Rightarrow> (node \<Rightarrow> (error + 'a) \<times> effect list)
     \<Rightarrow> (error + 'a) \<times> effect list" where
  "fetchThen x method path request callback =
     (case loginFetch x method path request of
        None \<Rightarrow> (Inl ServerError, [Fetch method path request])
      | Some reply \<Rightarrow>
          (case callback reply of (result, effects) \<Rightarrow>
             (result, Fetch method path request # effects)))"

definition applyKit :: "ext \<Rightarrow> LoginTree \<Rightarrow> LoginKit \<Rightarrow> (error + LoginTree) \<times> effect list" where
  "applyKit x loginTree kit =
     (let loginId = kit_loginId kit;
          serverMethod = (case kit_serverMethod kit of None \<Rightarrow> ''POST'' | Some m \<Rightarrow> m);
          serverPath = kit_serverPath kit
      in case searchTree loginTree (\<lambda>login. strictEq (getp login ''loginId'') loginId) of
           None \<Rightarrow> (Inl MissingLogin, [])
         | Some login \<Rightarrow>
            (if \<not> truthy (getp loginTree ''username'') then (Inl KitMissingUsername, [])
             else
              (case getStash x (getp loginTree ''username'') of
                 None \<Rightarrow> (Inl StashError, [])
               | Some stashTree \<Rightarrow>
                  (case makeAuthJson x login of
                     Inl e \<Rightarrow> (Inl e, [])
                   | Inr request0 \<Rightarrow>
                       fetchThen x serverMethod serverPath
                         (AList.update ''data'' (kit_server kit) request0)
                         (\<lambda>reply.
                            case updateTree loginTree
                                   (\<lambda>login. strictEq (getp login ''loginId'') loginId)
                                   (kitLogin x (kit_login kit)) cloneNode of
                              Inl e \<Rightarrow> (Inl e, [])
                            | Inr newLoginTree \<Rightarrow>
                               (case updateTree stashTree
                                       (\<lambda>stash. strictEq (getp stash ''loginId'') loginId)
                                       (kitStash (kit_stash kit)) cloneNode of
                                  Inl e \<Rightarrow> (Inl e, [])
                                | Inr newStashTree \<Rightarrow>
                                    saveThen x newStashTree newLoginTree))))))"

definition syncLogin :: "ext \<Rightarrow> LoginTree \<Rightarrow> LoginTree \<Rightarrow> (error + LoginTree) \<times> effect list" where
  "syncLogin x loginTree login =
     (if \<not> truthy (getp loginTree ''username'') then (Inl SyncMissingUsername, [])
      else
       (case getStash x (getp loginTree ''username'') of
          None \<Rightarrow> (Inl StashError, [])
        | Some stashTree \<Rightarrow>
           (case makeAuthJson x login of
              Inl e \<Rightarrow> (Inl e, [])
            | Inr request \<Rightarrow>
                fetchThen x ''POST'' ''/v2/login'' request
                  (\<lambda>reply.
                     case applyLoginReply x stashTree (getp login ''loginKey'') reply of
                       Inl e \<Rightarrow> (Inl e, [])
                     | Inr newStashTree \<Rightarrow>
                        (case makeLoginTree x newStashTree (getp login ''loginKey'')
                                (getp login ''appId'') of
                           Inl e \<Rightarrow> (Inl e, [])
                         | Inr newLoginTree \<Rightarrow> saveThen x newStashTree newLoginTree)))))"

section \<open>The scrypt parameter chooser\<close>

text \<open>
  The times are JavaScript numbers; the model computes with real numbers, so a quotient
  is exact where the source rounds it to the nearest double. \<open>base16.stringify\<close> is a
  parameter.
\<close>

record EdgeSnrp =
  salt_hex :: string
  snrp_n :: real
  snrp_r :: real
  snrp_p :: real

definition calcSnrpForTarget :: "(nat list \<Rightarrow> string) \<Rightarrow> nat list \<Rightarrow> real \<Rightarrow> real \<Rightarrow> EdgeSnrp" where
  "calcSnrpForTarget base16_stringify salt benchMs targetMs =
     (let snrp = \<lparr>salt_hex = base16_stringify salt, snrp_n = 16384, snrp_r = 8, snrp_p = 1\<rparr>
      in if benchMs = 0 then snrp\<lparr>snrp_n := 131072, snrp_r := 8, snrp_p := 64\<rparr>
         else
           let timeUsed = benchMs;
               STARTING_R = 8;
               MAX_R = 8;
               REMAINING_R = MAX_R - STARTING_R;
               perRValue = benchMs / STARTING_R;
               addR = (targetMs - timeUsed) / perRValue;
               addR = (if addR > 0 then addR else 0);
               addR = (if addR > REMAINING_R then REMAINING_R else addR);
               addR = of_int \<lfloor>addR\<rfloor>;
               snrp = snrp\<lparr>snrp_r := STARTING_R + addR\<rparr>;
               timeUsed = timeUsed + addR * perRValue;
               nPow = 14;
               addN = (targetMs - timeUsed) / timeUsed;
               addN = (if addN > 0 then addN else 0);
               addN = (if addN > 3 then 3 else addN);
               addN = of_int \<lfloor>addN\<rfloor>;
               nPow = nPow + (if addN \<ge> 0 then addN else 0);
               timeUsed = timeUsed + addN * timeUsed;
               snrp = snrp\<lparr>snrp_n := 2 powr nPow\<rparr>;
               addP = (targetMs - timeUsed) / timeUsed;
               addP = (if addP > 0 then addP else 0);
               addP = (if addP > 64 then 64 else addP);
               addP = of_int \<lfloor>addP\<rfloor>;
               snrp = snrp\<lparr>snrp_p := (if addP \<ge> 1 then addP else 1)\<rparr>
           in snrp)"

section \<open>The nodes of a tree\<close>

text \<open>
  To speak about the nodes of a result: \<open>allNodes\<close> lists every node of a tree, parents
  before children; \<open>matchedNodes p\<close> lists the nodes \<open>updateTree\<close> hands to \<open>update\<close>
  (those that satisfy \<open>p\<close> and have no ancestor that does); \<open>outerNodes p\<close> lists the
  nodes it hands to \<open>clone\<close> (those outside every matched subtree).
\<close>

function allNodes :: "node \<Rightarrow> node list" where
  "allNodes n = n # concat (map allNodes (childrenOrEmpty n))"
  by pat_completeness auto
termination
  by (relation "measure size") (auto simp: size_childrenOrEmpty)

function matchedNodes :: "(node \<Rightarrow> bool) \<Rightarrow> node \<Rightarrow> node list" where
  "matchedNodes predicate n =
     (if predicate n then [n] else concat (map (matchedNodes predicate) (childrenOrEmpty n)))"
  by pat_completeness auto
termination
  by (relation "measure (\<lambda>(p, n). size n)") (auto simp: size_childrenOrEmpty)

function outerNodes :: "(node \<Rightarrow> bool) \<Rightarrow> node \<Rightarrow> node list" where
  "outerNodes predicate n =
     (if predicate n then [] else n # concat (map (outerNodes predicate) (childrenOrEmpty n)))"
  by pat_completeness auto
termination
  by (relation "measure (\<lambda>(p, n). size n)") (auto simp: size_childrenOrEmpty)

declare allNodes.simps [simp del] matchedNodes.simps [simp del] outerNodes.simps [simp del]

section \<open>Notions used to state the properties\<close>

text \<open>
  \<open>applyLoginReplyInner\<close>, lines 81 to 104 of the source: the copy of the allowlisted
  fields and the client-only data kept from the previous stash.
\<close>

definition kept :: "LoginStash \<Rightarrow> LoginReply \<Rightarrow> node" where
  "kept stash reply =
     preserve stash ''userId'' (preserve stash ''username'' (preserve stash ''lastLogin''
       (filterObject reply allowlist)))"



text \<open>
  \<open>childStashOf stash reply index\<close>: the stash node that \<open>applyLoginReplyInner\<close>
  reconciles with the child \<open>index\<close> of the reply (lines 132 to 135 of the source).
\<close>

definition childStashOf :: "LoginStash \<Rightarrow> LoginReply \<Rightarrow> nat \<Rightarrow> LoginStash" where
  "childStashOf stash reply index =
     (if index < length (childrenOrEmpty stash) then childrenOrEmpty stash ! index
      else Node [(''appId'', getp (childrenOrEmpty reply ! index) ''appId''),
                 (''loginId'', getp (childrenOrEmpty reply ! index) ''loginId'')] None)"

text \<open>The property names that a node built by \<open>applyLoginReplyInner\<close> may carry.\<close>

definition outputNames :: "string set" where
  "outputNames = set allowlist \<union> {''keyBoxes'', ''lastLogin'', ''username'', ''pin2Key'', ''recovery2Key''}"








section \<open>A concrete environment\<close>

text \<open>
  The examples below run the code in one fixed environment: a box is an object holding
  its key and its data and opens under that key only; the codecs are toys; the server
  answers every request and the disk takes every write.
\<close>

definition toyDecrypt :: "val \<Rightarrow> val \<Rightarrow> val option" where
  "toyDecrypt box key =
     (case box of
        Obj ps \<Rightarrow> (if lookup ps ''key'' = key then map_of ps ''data'' else None)
      | _ \<Rightarrow> None)"

definition toyBytes :: "val \<Rightarrow> nat list option" where
  "toyBytes v =
     (case v of Str s \<Rightarrow> Some (map (\<lambda>c. if c = CHR ''A'' then 0 else 1) s) | _ \<Rightarrow> None)"

definition toyStash :: "val \<Rightarrow> node option" where
  "toyStash username =
     Some (Node [(''username'', username), (''appId'', Str []),
                 (''loginId'', Str ''AAAAAAAAAAAAAAAAAAAAAAAAAAAAAAAA'')] None)"

definition testExt :: ext where
  "testExt =
     \<lparr>decrypt = toyDecrypt, decryptText = toyDecrypt,
      hmacSha256 = (\<lambda>key data. key), utf8_parse = Str,
      base64_stringify = (\<lambda>bytes. bytes), base64_parse = toyBytes,
      base58_stringify = map (\<lambda>b. if b = 0 then CHR ''1'' else CHR ''2''),
      json_parse = Some, json_stringify = (\<lambda>n. ''{}''),
      makeKeyInfo = (\<lambda>type keys idKey. Obj ((''type'', type) # keys)),
      makeAccountType = (\<lambda>appId. appId),
      mergeKeyInfos = Some, fixWalletInfo = (\<lambda>info. info),
      totp = (\<lambda>key. Arr [Str ''totp'', key]), now = Num 0,
      getStash = toyStash,
      loginFetch = (\<lambda>method path request. Some (Node [] None)),
      setText = (\<lambda>path text. True)\<rparr>"

section \<open>Properties of the scrypt parameter chooser\<close>

lemma floor_clamp:
  fixes a :: real
  assumes "0 \<le> a" "a \<le> of_nat m"
  shows "\<exists>k::nat. k \<le> m \<and> (of_int \<lfloor>a\<rfloor> :: real) = of_nat k"
proof -
  have "0 \<le> \<lfloor>a\<rfloor>" using assms by simp
  moreover have "\<lfloor>a\<rfloor> \<le> int m" using assms by (simp add: floor_le_iff) 
  ultimately show ?thesis
    by (intro exI[of _ "nat \<lfloor>a\<rfloor>"]) (auto simp: nat_le_iff)
qed

lemma n_shape:
  fixes d :: real
  defines "a \<equiv> real_of_int \<lfloor>if 3 < (if 0 < d then d else 0) then 3 else if 0 < d then d else 0\<rfloor>"
  shows "\<exists>k::nat. 14 \<le> k \<and> k \<le> 17 \<and> 2 powr (14 + (if 0 \<le> a then a else 0)) = 2 ^ k"
proof -
  let ?c = "if 3 < (if 0 < d then d else 0) then 3 else if 0 < d then d else 0"
  have "0 \<le> ?c" "?c \<le> of_nat 3" by auto
  from floor_clamp[OF this] obtain k :: nat where k: "k \<le> 3" "a = of_nat k"
    unfolding a_def by blast
  have "2 powr (14 + (if 0 \<le> a then a else 0)) = 2 powr (of_nat (14 + k))" by (simp add: k)
  also have "\<dots> = 2 ^ (14 + k)" by (subst powr_realpow) simp_all
  finally show ?thesis using k by (intro exI[of _ "14 + k"]) simp
qed

lemma p_shape:
  fixes d :: real
  defines "a \<equiv> real_of_int \<lfloor>if 64 < (if 0 < d then d else 0) then 64 else if 0 < d then d else 0\<rfloor>"
  shows "\<exists>q::nat. 1 \<le> q \<and> q \<le> 64 \<and> (if 1 \<le> a then a else 1) = of_nat q"
proof -
  let ?c = "if 64 < (if 0 < d then d else 0) then 64 else if 0 < d then d else 0"
  have "0 \<le> ?c" "?c \<le> of_nat 64" by auto
  from floor_clamp[OF this] obtain k :: nat where k: "k \<le> 64" "a = of_nat k"
    unfolding a_def by blast
  show ?thesis
  proof (cases "1 \<le> k")
    case True then show ?thesis using k by (intro exI[of _ k]) simp
  next
    case False then show ?thesis using k by (intro exI[of _ 1]) simp
  qed
qed

lemma r_shape:
  fixes d :: real
  shows "real_of_int \<lfloor>if 8 - 8 < (if 0 < d then d else 0) then 8 - 8 else if 0 < d then d else 0\<rfloor> = 0"
  by simp

text \<open>
  Claim C9. With a benchmark of 0 ms the chooser returns \<open>n = 131072\<close>, \<open>r = 8\<close>,
  \<open>p = 64\<close> whatever the target. For every benchmark and target (in particular every
  benchmark above 0) \<open>r\<close> is 8, since \<open>MAX_R - STARTING_R = 0\<close> caps the increment at
  0; \<open>n\<close> is \<open>2 ^ k\<close> for some \<open>k\<close> from 14 to 17; and \<open>p\<close> is a whole number from
  1 to 64.
\<close>

theorem calcSnrpForTarget_bounds:
  "calcSnrpForTarget b16 salt 0 targetMs
     = \<lparr>salt_hex = b16 salt, snrp_n = 131072, snrp_r = 8, snrp_p = 64\<rparr>
   \<and> snrp_r (calcSnrpForTarget b16 salt benchMs targetMs) = 8
   \<and> (\<exists>k::nat. 14 \<le> k \<and> k \<le> 17 \<and> snrp_n (calcSnrpForTarget b16 salt benchMs targetMs) = 2 ^ k)
   \<and> (\<exists>q::nat. 1 \<le> q \<and> q \<le> 64 \<and> snrp_p (calcSnrpForTarget b16 salt benchMs targetMs) = of_nat q)"
proof (intro conjI)
  show "calcSnrpForTarget b16 salt 0 targetMs
     = \<lparr>salt_hex = b16 salt, snrp_n = 131072, snrp_r = 8, snrp_p = 64\<rparr>"
    by (simp add: calcSnrpForTarget_def)
  show "snrp_r (calcSnrpForTarget b16 salt benchMs targetMs) = 8"
    by (simp add: calcSnrpForTarget_def Let_def)
  show "\<exists>k::nat. 14 \<le> k \<and> k \<le> 17 \<and> snrp_n (calcSnrpForTarget b16 salt benchMs targetMs) = 2 ^ k"
  proof (cases "benchMs = 0")
    case True
    then show ?thesis by (intro exI[of _ 17]) (simp add: calcSnrpForTarget_def)
  next
    case False
    show ?thesis
      unfolding calcSnrpForTarget_def Let_def
      apply (simp only: False if_False EdgeSnrp.simps)
      apply (rule n_shape)
      done
  qed
  show "\<exists>q::nat. 1 \<le> q \<and> q \<le> 64 \<and> snrp_p (calcSnrpForTarget b16 salt benchMs targetMs) = of_nat q"
  proof (cases "benchMs = 0")
    case True
    then show ?thesis by (intro exI[of _ 64]) (simp add: calcSnrpForTarget_def)
  next
    case False
    show ?thesis
      unfolding calcSnrpForTarget_def Let_def
      apply (simp only: False if_False EdgeSnrp.simps)
      apply (rule p_shape)
      done
  qed
qed


section \<open>Properties of the stash store\<close>

text \<open>
  Claim C3. \<open>saveStash\<close> fails, having written no file and dispatched no event,
  unless \<open>appId\<close> is the empty string, \<open>loginId\<close> is set and decodes from base64 to
  exactly 32 bytes, and \<open>username\<close> is set. When all of this holds it makes one write,
  of the whole \<open>JSON.stringify (stashTree)\<close> to \<open>logins/<base58 (loginId)>.json\<close>,
  and dispatches \<open>LOGIN_STASH_SAVED\<close> after it, and only when the write succeeded.
\<close>

theorem saveStash_guarded:
  "(\<not> (strictEq (getp stashTree ''appId'') (Str []) \<and> notNull (getp stashTree ''loginId'')
        \<and> (case base64_parse x (getp stashTree ''loginId'') of
              Some loginId \<Rightarrow> length loginId = 32 | None \<Rightarrow> False)
        \<and> notNull (getp stashTree ''username''))
      \<longrightarrow> (\<exists>e. saveStash x stashTree = (Inl e, [])))
   \<and> (strictEq (getp stashTree ''appId'') (Str []) \<and> notNull (getp stashTree ''loginId'')
        \<and> base64_parse x (getp stashTree ''loginId'') = Some loginId \<and> length loginId = 32
        \<and> notNull (getp stashTree ''username'')
      \<longrightarrow> saveStash x stashTree =
            (if setText x (''logins/'' @ base58_stringify x loginId @ ''.json'')
                  (json_stringify x stashTree)
             then (Inr (), [SetText (''logins/'' @ base58_stringify x loginId @ ''.json'')
                              (json_stringify x stashTree),
                            Dispatch ''LOGIN_STASH_SAVED'' stashTree])
             else (Inl DiskError,
                   [SetText (''logins/'' @ base58_stringify x loginId @ ''.json'')
                      (json_stringify x stashTree)])))"
  by (auto simp: saveStash_def Let_def split: option.splits)


theorem saveStash_guarded_witness:
  "saveStash testExt (Node [(''appId'', Str ''app''), (''loginId'', Str ''AAAAAAAAAAAAAAAAAAAAAAAAAAAAAAAA''),
                            (''username'', Str ''edge'')] None) = (Inl SaveAppId, [])
   \<and> saveStash testExt (Node [(''appId'', Str []), (''loginId'', Str ''AAAAAAAAAAAAAAAA''),
                            (''username'', Str ''edge'')] None) = (Inl InvalidLoginId, [])
   \<and> saveStash testExt (Node [(''appId'', Str []), (''loginId'', Str ''AAAAAAAAAAAAAAAAAAAAAAAAAAAAAAAA''),
                            (''username'', Str ''edge'')] None)
       = (Inr (), [SetText ''logins/11111111111111111111111111111111.json'' ''{}'',
                   Dispatch ''LOGIN_STASH_SAVED''
                     (Node [(''appId'', Str []), (''loginId'', Str ''AAAAAAAAAAAAAAAAAAAAAAAAAAAAAAAA''),
                            (''username'', Str ''edge'')] None)])
   \<and> saveStash (testExt\<lparr>setText := \<lambda>path text. False\<rparr>)
         (Node [(''appId'', Str []), (''loginId'', Str ''AAAAAAAAAAAAAAAAAAAAAAAAAAAAAAAA''),
                            (''username'', Str ''edge'')] None)
       = (Inl DiskError, [SetText ''logins/11111111111111111111111111111111.json'' ''{}''])"
  using
    saveStash_guarded[of "Node [(''appId'', Str ''app''), (''loginId'', Str ''AAAAAAAAAAAAAAAAAAAAAAAAAAAAAAAA''),
                            (''username'', Str ''edge'')] None" testExt]
    saveStash_guarded[of "Node [(''appId'', Str []), (''loginId'', Str ''AAAAAAAAAAAAAAAA''),
                            (''username'', Str ''edge'')] None" testExt]
    saveStash_guarded[of "Node [(''appId'', Str []), (''loginId'', Str ''AAAAAAAAAAAAAAAAAAAAAAAAAAAAAAAA''),
                            (''username'', Str ''edge'')] None" testExt "replicate 32 0"]
    saveStash_guarded[of "Node [(''appId'', Str []), (''loginId'', Str ''AAAAAAAAAAAAAAAAAAAAAAAAAAAAAAAA''),
                            (''username'', Str ''edge'')] None" "testExt\<lparr>setText := \<lambda>path text. False\<rparr>"
                      "replicate 32 0"]
  by (simp add: saveStash_def getp_def lookup_def strictEq_def testExt_def toyBytes_def)


section \<open>Properties of the server authentication\<close>

text \<open>
  Claim C5. \<open>makeAuthJson\<close> answers \<open>{ loginId, loginAuth, otp }\<close> whenever
  \<open>loginAuth\<close> is present, also when \<open>passwordAuth\<close> is present too;
  \<open>{ userId, passwordAuth, otp }\<close> when only \<open>passwordAuth\<close> is present; and fails
  with \<open>NoAuth\<close> when neither is. In a request it returns, \<open>otp\<close> is
  \<open>totp (otpKey)\<close> when the login has an \<open>otpKey\<close> and \<open>undefined\<close> when it has
  none: such a property is left out of the JSON the request is sent as.
\<close>

theorem makeAuthJson_method:
  "(notNull (getp login ''loginAuth'') \<longrightarrow>
      makeAuthJson x login =
        Inr [(''loginId'', getp login ''loginId''),
             (''loginAuth'', base64_stringify x (getp login ''loginAuth'')),
             (''otp'', getLoginOtp x login)])
   \<and> (\<not> notNull (getp login ''loginAuth'') \<and> notNull (getp login ''passwordAuth'') \<longrightarrow>
      makeAuthJson x login =
        Inr [(''userId'', getp login ''userId''),
             (''passwordAuth'', base64_stringify x (getp login ''passwordAuth'')),
             (''otp'', getLoginOtp x login)])
   \<and> (\<not> notNull (getp login ''loginAuth'') \<and> \<not> notNull (getp login ''passwordAuth'') \<longrightarrow>
      makeAuthJson x login = Inl NoAuth)
   \<and> (\<forall>request. makeAuthJson x login = Inr request \<longrightarrow>
      lookup request ''otp'' =
        (if notNull (getp login ''otpKey'') then totp x (getp login ''otpKey'') else Undefined))"
  by (auto simp: makeAuthJson_def getLoginOtp_def lookup_def)


theorem makeAuthJson_method_witness:
  "makeAuthJson testExt
     (Node [(''loginId'', Str ''L''), (''userId'', Str ''U''),
            (''loginAuth'', Bytes [1]), (''passwordAuth'', Bytes [2]), (''otpKey'', Str ''K'')] None)
     = Inr [(''loginId'', Str ''L''), (''loginAuth'', Bytes [1]),
            (''otp'', Arr [Str ''totp'', Str ''K''])]
   \<and> makeAuthJson testExt
     (Node [(''loginId'', Str ''L''), (''userId'', Str ''U''), (''passwordAuth'', Bytes [2])] None)
     = Inr [(''userId'', Str ''U''), (''passwordAuth'', Bytes [2]), (''otp'', Undefined)]
   \<and> makeAuthJson testExt (Node [(''loginId'', Str ''L''), (''otpKey'', Str ''K'')] None)
     = Inl NoAuth"
  using makeAuthJson_method[of "Node [(''loginId'', Str ''L''), (''userId'', Str ''U''),
            (''loginAuth'', Bytes [1]), (''passwordAuth'', Bytes [2]), (''otpKey'', Str ''K'')] None" testExt]
    makeAuthJson_method[of "Node [(''loginId'', Str ''L''), (''userId'', Str ''U''), (''passwordAuth'', Bytes [2])] None" testExt]
    makeAuthJson_method[of "Node [(''loginId'', Str ''L''), (''otpKey'', Str ''K'')] None" testExt]
  by (simp add: getp_def lookup_def getLoginOtp_def testExt_def)

section \<open>Properties of the one-time password selection\<close>

text \<open>
  Claim C8. The claim has \<open>getStashOtp\<close> return \<open>opts.otp\<close> verbatim exactly when it
  is a string of digits shorter than 16 characters, and \<open>totp (opts.otp)\<close> for any other
  \<open>opts.otp\<close>. The code tests \<open>/[0-9]+/\<close> without anchors, so one digit anywhere is
  enough: the 8-character base32 secret \<open>JBSWY3DP\<close> is not a string of digits, and it
  is returned verbatim instead of being used as the secret of a TOTP.
\<close>

theorem getStashOtp_short_secret:
  "getStashOtp x stash \<lparr>opts_otp = Some ''JBSWY3DP'', opts_otpKey = key\<rparr> = Str ''JBSWY3DP''
   \<and> \<not> list_all isDigit ''JBSWY3DP'' \<and> length ''JBSWY3DP'' < 16"
  by (simp add: getStashOtp_def isDigit_def)


section \<open>Running the code on a concrete tree\<close>

text \<open>
  The recursive functions unfold on a node that is written out, and not under the
  \<open>\<lambda>\<close> of their own recursive call.
\<close>

lemma searchTree_Node:
  "searchTree (Node ps cs) predicate =
     (if predicate (Node ps cs) then Some (Node ps cs)
      else firstSome (\<lambda>child. searchTree child predicate) (case cs of None \<Rightarrow> [] | Some l \<Rightarrow> l))"
  by (subst searchTree.simps) (simp add: childrenOrEmpty_def)

lemma updateTree_Node:
  "updateTree (Node ps cs) predicate update clone =
     (if predicate (Node ps cs) then update (Node ps cs)
      else bindE (mapE (\<lambda>child. updateTree child predicate update clone)
                    (case cs of None \<Rightarrow> [] | Some l \<Rightarrow> l))
             (\<lambda>cs'. clone (Node ps cs) cs'))"
  by (subst updateTree.simps) (simp add: childrenOrEmpty_def)

lemmas run_simps =
  searchTree_Node updateTree_Node getp_def lookup_def has_def strictEq_def setp_def spread_def
  softCat_def cloneNode_def bindE_def orThrow_def filterObject_def Let_def
  testExt_def toyDecrypt_def toyBytes_def toyStash_def

section \<open>Unfolding the walks on a written-out node\<close>

lemma allNodes_Node:
  "allNodes (Node ps cs) = Node ps cs # concat (map allNodes (case cs of None \<Rightarrow> [] | Some l \<Rightarrow> l))"
  by (subst allNodes.simps) (simp add: childrenOrEmpty_def)


lemma outerNodes_Node:
  "outerNodes predicate (Node ps cs) =
     (if predicate (Node ps cs) then []
      else Node ps cs # concat (map (outerNodes predicate) (case cs of None \<Rightarrow> [] | Some l \<Rightarrow> l)))"
  by (subst outerNodes.simps) (simp add: childrenOrEmpty_def)

section \<open>Facts about filterObject and mapE\<close>

lemma foldl_filter_aux:
  "distinct keys \<Longrightarrow> set keys \<inter> fst ` set acc = {} \<Longrightarrow>
   foldl (\<lambda>out key. if has key ps then AList.update key (lookup ps key) out else out) acc keys
     = acc @ map (\<lambda>k. (k, lookup ps k)) (filter (\<lambda>k. has k ps) keys)"
proof (induction keys arbitrary: acc)
  case Nil then show ?case by simp
next
  case (Cons k ks)
  have "AList.update k v acc = acc @ [(k, v)]" for v
    using Cons.prems(2) by (induction acc) auto
  with Cons show ?case by (auto simp: image_Un)
qed

lemma props_filterObject:
  "distinct keys \<Longrightarrow> props (filterObject s keys) = map (\<lambda>k. (k, getp s k)) (filter (\<lambda>k. has k (props s)) keys)"
  by (simp add: filterObject_def foldl_filter_aux getp_def)

lemma mapE_Inr_D: "mapE f xs = Inr ys \<Longrightarrow> list_all2 (\<lambda>x y. f x = Inr y) xs ys"
  by (induction xs arbitrary: ys) (auto split: sum.splits)

lemma mapE_Inr_I: "list_all2 (\<lambda>x y. f x = Inr y) xs ys \<Longrightarrow> mapE f xs = Inr ys"
  by (induction rule: list_all2_induct) auto

lemma mapE_Inl_iff: "(\<exists>e. mapE f xs = Inl e) \<longleftrightarrow> (\<exists>x\<in>set xs. \<exists>e. f x = Inl e)"
  by (induction xs) (auto split: sum.splits)

lemma map_of_filtered:
  "map_of (map (\<lambda>k. (k, f k)) (filter P keys)) k = (if k \<in> set keys \<and> P k then Some (f k) else None)"
  by (induction keys) auto

lemma has_filterObject:
  "distinct keys \<Longrightarrow> has k (props (filterObject s keys)) \<longleftrightarrow> k \<in> set keys \<and> has k (props s)"
  by (simp add: props_filterObject has_def[of k "map _ _"] map_of_filtered)

lemma getp_filterObject:
  "distinct keys \<Longrightarrow> getp (Node (props (filterObject s keys)) cs) k = (if k \<in> set keys then getp s k else Undefined)"
  by (simp add: props_filterObject getp_def lookup_def map_of_filtered has_def split: option.splits)

lemma filterObject_idem:
  assumes "distinct keys"
  shows "props (filterObject (Node (props (filterObject s keys)) cs) keys) = props (filterObject s keys)"
proof -
  let ?F = "Node (props (filterObject s keys)) cs"
  have 1: "filter (\<lambda>k. has k (props ?F)) keys = filter (\<lambda>k. has k (props s)) keys"
    by (rule filter_cong) (simp_all add: has_filterObject assms)
  have 2: "map (\<lambda>k. (k, getp ?F k)) ks = map (\<lambda>k. (k, getp s k)) ks" if "set ks \<subseteq> set keys" for ks
    using that by (intro map_cong) (auto simp: getp_filterObject assms)
  have "props (filterObject ?F keys) = map (\<lambda>k. (k, getp ?F k)) (filter (\<lambda>k. has k (props ?F)) keys)"
    by (rule props_filterObject[OF assms])
  also have "\<dots> = map (\<lambda>k. (k, getp s k)) (filter (\<lambda>k. has k (props s)) keys)"
    unfolding 1 by (rule 2) simp
  also have "\<dots> = props (filterObject s keys)"
    by (rule props_filterObject[OF assms, symmetric])
  finally show ?thesis .
qed

lemma keys_filterObject:
  "distinct keys \<Longrightarrow> fst ` set (props (filterObject s keys)) \<subseteq> set keys"
  by (auto simp: props_filterObject)

section \<open>Properties of kits and sync\<close>

lemma saveStash_cases:
  "saveStash x s = (r, effects) \<Longrightarrow>
     (\<exists>e. r = Inl e \<and> effects = []) \<or>
     (\<exists>path. r = Inl DiskError \<and> effects = [SetText path (json_stringify x s)] \<and> \<not> setText x path (json_stringify x s)) \<or>
     (\<exists>path. r = Inr () \<and> effects = [SetText path (json_stringify x s), Dispatch ''LOGIN_STASH_SAVED'' s]
          \<and> setText x path (json_stringify x s))"
  by (auto simp: saveStash_def Let_def split: if_splits option.splits)

lemma firstSome_concat:
  "firstSome (\<lambda>c. case g c of [] \<Rightarrow> None | n # ns \<Rightarrow> Some n) xs
     = (case concat (map g xs) of [] \<Rightarrow> None | n # ns \<Rightarrow> Some n)"
proof (induction xs)
  case Nil
  then show ?case by simp
next
  case (Cons a xs)
  then show ?case by (cases "g a") simp_all
qed

lemma searchTree_first:
  "searchTree t predicate = (case filter predicate (allNodes t) of [] \<Rightarrow> None | n # ns \<Rightarrow> Some n)"
proof (induction t rule: allNodes.induct)
  case (1 t)
  show ?case
  proof (cases "predicate t")
    case True
    then show ?thesis
      by (simp add: searchTree.simps[of t] allNodes.simps[of t])
  next
    case False
    have "searchTree t predicate
            = firstSome (\<lambda>c. case filter predicate (allNodes c) of [] \<Rightarrow> None | n # ns \<Rightarrow> Some n)
                (childrenOrEmpty t)"
      using False 1 by (simp add: searchTree.simps[of t] cong: firstSome_cong)
    also have "\<dots> = (case concat (map (\<lambda>c. filter predicate (allNodes c)) (childrenOrEmpty t)) of
                        [] \<Rightarrow> None | n # ns \<Rightarrow> Some n)"
      by (rule firstSome_concat)
    also have "concat (map (\<lambda>c. filter predicate (allNodes c)) (childrenOrEmpty t))
                 = filter predicate (allNodes t)"
      using False by (simp add: allNodes.simps[of t] filter_concat comp_def)
    finally show ?thesis .
  qed
qed

lemma updateTree_cloneNode_total:
  assumes "\<And>n. \<exists>n'. update n = Inr n'"
  shows "\<exists>t'. updateTree t predicate update cloneNode = Inr t'"
proof (induction t rule: allNodes.induct)
  case (1 t)
  show ?case
  proof (cases "predicate t")
    case True
    then show ?thesis using assms[of t] by (simp add: updateTree.simps[of t])
  next
    case False
    have "\<not> (\<exists>e. mapE (\<lambda>child. updateTree child predicate update cloneNode) (childrenOrEmpty t) = Inl e)"
      using 1 by (subst mapE_Inl_iff) (metis Inl_Inr_False)
    then obtain cs where "mapE (\<lambda>child. updateTree child predicate update cloneNode) (childrenOrEmpty t) = Inr cs"
      by (cases "mapE (\<lambda>child. updateTree child predicate update cloneNode) (childrenOrEmpty t)") auto
    then show ?thesis using False
      by (simp add: updateTree.simps[of t] bindE_def) (simp add: cloneNode_def)
  qed
qed

lemma kitStash_total: "\<exists>n'. kitStash delta n = Inr n'"
  by (simp add: kitStash_def)

text \<open>
  Claim C6. The target of a kit is the first node of the login tree, parents before
  children, whose \<open>loginId\<close> is the kit's.
  \<^item> When no node of the login tree has that \<open>loginId\<close>, \<open>applyKit\<close> fails with
    \<open>MissingLogin\<close> and has made no call: no server request, no write, no dispatch.
  \<^item> When the target exists but the root has no username, the stash cannot be read or
    the target has no server authentication, it fails and has made no call either.
  \<^item> Otherwise the server request is the first call. When the server fails, the result
    is the server's error and the request is the only call: no stash is saved and no
    login tree is returned.
  \<^item> When the server answers, the update of the stash tree cannot fail, and the call is
    the request followed by what \<open>saveStash\<close> does with the new stash tree; the new
    login tree is returned only when \<open>saveStash\<close> succeeded, and the calls are then
    exactly the request, the write of the new stash tree and \<open>LOGIN_STASH_SAVED\<close>,
    in this order.
\<close>

theorem applyKit_order:
  fixes x :: ext and loginTree :: LoginTree and kit :: LoginKit
  defines "method \<equiv> (case kit_serverMethod kit of None \<Rightarrow> ''POST'' | Some m \<Rightarrow> m)"
  defines "path \<equiv> kit_serverPath kit"
  defines "target \<equiv> (\<lambda>n. strictEq (getp n ''loginId'') (kit_loginId kit))"
  shows
   "((\<forall>n\<in>set (allNodes loginTree). \<not> target n)
       \<longrightarrow> applyKit x loginTree kit = (Inl MissingLogin, []))
  \<and> (\<forall>login others.
        filter target (allNodes loginTree) = login # others
      \<and> (\<not> truthy (getp loginTree ''username'')
           \<or> getStash x (getp loginTree ''username'') = None
           \<or> (\<exists>e. makeAuthJson x login = Inl e))
      \<longrightarrow> (\<exists>e. applyKit x loginTree kit = (Inl e, [])))
  \<and> (\<forall>login others stashTree authJson.
        filter target (allNodes loginTree) = login # others
      \<and> truthy (getp loginTree ''username'')
      \<and> getStash x (getp loginTree ''username'') = Some stashTree
      \<and> makeAuthJson x login = Inr authJson
      \<longrightarrow>
       (let request = AList.update ''data'' (kit_server kit) authJson;
            call = Fetch method path request
        in (loginFetch x method path request = None
              \<longrightarrow> applyKit x loginTree kit = (Inl ServerError, [call]))
         \<and> (loginFetch x method path request \<noteq> None \<longrightarrow>
              (\<forall>e. updateTree loginTree target (kitLogin x (kit_login kit)) cloneNode = Inl e
                  \<longrightarrow> applyKit x loginTree kit = (Inl e, [call]))
            \<and> (\<exists>newStashTree.
                  updateTree stashTree target (kitStash (kit_stash kit)) cloneNode
                    = Inr newStashTree)
            \<and> (\<forall>newLoginTree newStashTree.
                  updateTree loginTree target (kitLogin x (kit_login kit)) cloneNode
                    = Inr newLoginTree
                \<and> updateTree stashTree target (kitStash (kit_stash kit)) cloneNode
                    = Inr newStashTree
                  \<longrightarrow> applyKit x loginTree kit
                        = (case saveStash x newStashTree of
                             (Inl e, effects) \<Rightarrow> (Inl e, call # effects)
                           | (Inr u, effects) \<Rightarrow> (Inr newLoginTree, call # effects))
                    \<and> (\<forall>tree effects.
                          applyKit x loginTree kit = (Inr tree, effects)
                          \<longrightarrow> tree = newLoginTree
                            \<and> (\<exists>file. setText x file (json_stringify x newStashTree)
                                  \<and> effects =
                                      [call, SetText file (json_stringify x newStashTree),
                                       Dispatch ''LOGIN_STASH_SAVED'' newStashTree]))))))"
  unfolding Let_def
proof (intro conjI impI allI, goal_cases)
  case 1
  then have "searchTree loginTree target = None"
    by (simp add: searchTree_first filter_empty_conv split: list.splits)
  then show ?case by (simp add: applyKit_def target_def)
next
  case (2 login others)
  then have "searchTree loginTree target = Some login" by (simp add: searchTree_first)
  with 2 show ?case
    unfolding target_def
    by (cases "getStash x (getp loginTree ''username'')") (auto simp: applyKit_def Let_def)
next
  case (3 login others stashTree authJson)
  then have "searchTree loginTree target = Some login" by (simp add: searchTree_first)
  with 3 show ?case
    unfolding target_def method_def path_def
    by (simp add: applyKit_def fetchThen_def)
next
  case (4 login others stashTree authJson e)
  then have "searchTree loginTree target = Some login" by (simp add: searchTree_first)
  with 4 show ?case
    unfolding target_def method_def path_def
    by (auto simp: applyKit_def fetchThen_def)
next
  case (5 login others stashTree authJson)
  show ?case
    by (rule updateTree_cloneNode_total[OF kitStash_total])
next
  case (6 login others stashTree authJson newLoginTree newStashTree)
  then have s: "searchTree loginTree target = Some login" by (simp add: searchTree_first)
  show ?case
    using 6 s unfolding target_def method_def path_def
    by (auto simp: applyKit_def fetchThen_def saveThen_def split: prod.splits sum.splits)
next
  case (7 login others stashTree authJson newLoginTree newStashTree tree effects)
  then have s: "searchTree loginTree target = Some login" by (simp add: searchTree_first)
  have "applyKit x loginTree kit
          = (case saveStash x newStashTree of
               (Inl e, effects) \<Rightarrow>
                 (Inl e, Fetch method path (AList.update ''data'' (kit_server kit) authJson) # effects)
             | (Inr u, effects) \<Rightarrow>
                 (Inr newLoginTree,
                  Fetch method path (AList.update ''data'' (kit_server kit) authJson) # effects))"
    using 7 s unfolding target_def method_def path_def
    by (auto simp: applyKit_def fetchThen_def saveThen_def split: prod.splits sum.splits)
  with 7 show ?case
    by (auto split: prod.splits sum.splits dest!: saveStash_cases)
next
  case (8 login others stashTree authJson newLoginTree newStashTree tree effects)
  then have s: "searchTree loginTree target = Some login" by (simp add: searchTree_first)
  have "applyKit x loginTree kit
          = (case saveStash x newStashTree of
               (Inl e, effects) \<Rightarrow>
                 (Inl e, Fetch method path (AList.update ''data'' (kit_server kit) authJson) # effects)
             | (Inr u, effects) \<Rightarrow>
                 (Inr newLoginTree,
                  Fetch method path (AList.update ''data'' (kit_server kit) authJson) # effects))"
    using 8 s unfolding target_def method_def path_def
    by (auto simp: applyKit_def fetchThen_def saveThen_def split: prod.splits sum.splits)
  with 8 show ?case
    by (auto split: prod.splits sum.splits dest!: saveStash_cases)
qed


theorem applyKit_order_witness:
  "applyKit
     (testExt\<lparr>getStash := \<lambda>username. Some
        (Node [(''username'', Str ''edge''), (''appId'', Str []),
               (''loginId'', Str ''AAAAAAAAAAAAAAAAAAAAAAAAAAAAAAAA'')]
           (Some [Node [(''appId'', Str ''app.a''), (''loginId'', Str ''C'')] None]))\<rparr>)
     (Node [(''loginId'', Str ''AAAAAAAAAAAAAAAAAAAAAAAAAAAAAAAA''), (''username'', Str ''edge''),
            (''loginAuth'', Bytes [1])]
        (Some [Node [(''appId'', Str ''app.a''), (''loginId'', Str ''C''),
                     (''loginAuth'', Bytes [2])] None]))
     \<lparr>kit_loginId = Str ''C'', kit_serverMethod = None,
      kit_serverPath = ''/v2/login/otp'', kit_server = Obj [(''otpKey'', Str ''K'')],
      kit_stash = Node [(''otpKey'', Str ''K'')] None, kit_login = Node [(''otpKey'', Str ''K'')] None\<rparr>
   = (Inr (Node [(''loginId'', Str ''AAAAAAAAAAAAAAAAAAAAAAAAAAAAAAAA''), (''username'', Str ''edge''),
                 (''loginAuth'', Bytes [1])]
          (Some [Node [(''appId'', Str ''app.a''), (''loginId'', Str ''C''),
                       (''loginAuth'', Bytes [2]), (''otpKey'', Str ''K''),
                       (''keyInfos'', Arr [])] (Some [])])),
      [Fetch ''POST'' ''/v2/login/otp''
         [(''loginId'', Str ''C''), (''loginAuth'', Bytes [2]),
          (''otp'', Undefined), (''data'', Obj [(''otpKey'', Str ''K'')])],
       SetText ''logins/11111111111111111111111111111111.json'' ''{}'',
       Dispatch ''LOGIN_STASH_SAVED''
         (Node [(''username'', Str ''edge''), (''appId'', Str []),
                (''loginId'', Str ''AAAAAAAAAAAAAAAAAAAAAAAAAAAAAAAA'')]
            (Some [Node [(''appId'', Str ''app.a''), (''loginId'', Str ''C''),
                         (''otpKey'', Str ''K''), (''keyBoxes'', Arr [])] (Some [])]))])
   \<and> applyKit (testExt\<lparr>loginFetch := \<lambda>method path request. None\<rparr>)
     (Node [(''loginId'', Str ''AAAAAAAAAAAAAAAAAAAAAAAAAAAAAAAA''), (''username'', Str ''edge''),
            (''loginAuth'', Bytes [1])]
        (Some [Node [(''appId'', Str ''app.a''), (''loginId'', Str ''C''),
                     (''loginAuth'', Bytes [2])] None]))
     \<lparr>kit_loginId = Str ''C'', kit_serverMethod = None,
      kit_serverPath = ''/v2/login/otp'', kit_server = Obj [(''otpKey'', Str ''K'')],
      kit_stash = Node [(''otpKey'', Str ''K'')] None, kit_login = Node [(''otpKey'', Str ''K'')] None\<rparr>
   = (Inl ServerError,
      [Fetch ''POST'' ''/v2/login/otp''
         [(''loginId'', Str ''C''), (''loginAuth'', Bytes [2]),
          (''otp'', Undefined), (''data'', Obj [(''otpKey'', Str ''K'')])]])
   \<and> applyKit testExt
     (Node [(''loginId'', Str ''AAAAAAAAAAAAAAAAAAAAAAAAAAAAAAAA''), (''username'', Str ''edge''),
            (''loginAuth'', Bytes [1])]
        (Some [Node [(''appId'', Str ''app.a''), (''loginId'', Str ''C''),
                     (''loginAuth'', Bytes [2])] None]))
     \<lparr>kit_loginId = Str ''B'', kit_serverMethod = None,
      kit_serverPath = ''/v2/login/otp'', kit_server = Obj [(''otpKey'', Str ''K'')],
      kit_stash = Node [(''otpKey'', Str ''K'')] None, kit_login = Node [(''otpKey'', Str ''K'')] None\<rparr>
   = (Inl MissingLogin, [])"
  (is "?run1 \<and> ?run2 \<and> ?run3")
proof -
  let ?T = "(Node [(''loginId'', Str ''AAAAAAAAAAAAAAAAAAAAAAAAAAAAAAAA''), (''username'', Str ''edge''),
            (''loginAuth'', Bytes [1])]
        (Some [Node [(''appId'', Str ''app.a''), (''loginId'', Str ''C''),
                     (''loginAuth'', Bytes [2])] None]))"
  let ?K = "\<lparr>kit_loginId = Str ''C'', kit_serverMethod = None,
      kit_serverPath = ''/v2/login/otp'', kit_server = Obj [(''otpKey'', Str ''K'')],
      kit_stash = Node [(''otpKey'', Str ''K'')] None, kit_login = Node [(''otpKey'', Str ''K'')] None\<rparr>"
  let ?Kb = "\<lparr>kit_loginId = Str ''B'', kit_serverMethod = None,
      kit_serverPath = ''/v2/login/otp'', kit_server = Obj [(''otpKey'', Str ''K'')],
      kit_stash = Node [(''otpKey'', Str ''K'')] None, kit_login = Node [(''otpKey'', Str ''K'')] None\<rparr>"
  let ?x1 = "(testExt\<lparr>getStash := \<lambda>username. Some
        (Node [(''username'', Str ''edge''), (''appId'', Str []),
               (''loginId'', Str ''AAAAAAAAAAAAAAAAAAAAAAAAAAAAAAAA'')]
           (Some [Node [(''appId'', Str ''app.a''), (''loginId'', Str ''C'')] None]))\<rparr>)"
  let ?x2 = "(testExt\<lparr>loginFetch := \<lambda>method path request. None\<rparr>)"
  let ?child = "(Node [(''appId'', Str ''app.a''), (''loginId'', Str ''C''), (''loginAuth'', Bytes [2])] None)"
  let ?auth = "[(''loginId'', Str ''C''), (''loginAuth'', Bytes [2]), (''otp'', Undefined)]"
  let ?stash = "(Node [(''username'', Str ''edge''), (''appId'', Str []),
               (''loginId'', Str ''AAAAAAAAAAAAAAAAAAAAAAAAAAAAAAAA'')]
           (Some [Node [(''appId'', Str ''app.a''), (''loginId'', Str ''C'')] None]))"
  let ?newT = "(Node [(''loginId'', Str ''AAAAAAAAAAAAAAAAAAAAAAAAAAAAAAAA''), (''username'', Str ''edge''),
                 (''loginAuth'', Bytes [1])]
          (Some [Node [(''appId'', Str ''app.a''), (''loginId'', Str ''C''),
                       (''loginAuth'', Bytes [2]), (''otpKey'', Str ''K''),
                       (''keyInfos'', Arr [])] (Some [])]))"
  let ?newS = "(Node [(''username'', Str ''edge''), (''appId'', Str []),
                (''loginId'', Str ''AAAAAAAAAAAAAAAAAAAAAAAAAAAAAAAA'')]
            (Some [Node [(''appId'', Str ''app.a''), (''loginId'', Str ''C''),
                         (''otpKey'', Str ''K''), (''keyBoxes'', Arr [])] (Some [])]))"
  let ?call = "Fetch (case kit_serverMethod ?K of None \<Rightarrow> ''POST'' | Some m \<Rightarrow> m)
                 (kit_serverPath ?K) (AList.update ''data'' (kit_server ?K) ?auth)"
  note found = applyKit_order[unfolded Let_def, THEN conjunct2, THEN conjunct2, rule_format]
  let ?tg = "\<lambda>n. strictEq (getp n ''loginId'') (kit_loginId ?K)"
  have a: "filter ?tg (allNodes ?T) = [?child]"
    by (simp add: allNodes_Node run_simps)
  have b: "getStash ?x1 (getp ?T ''username'') = Some ?stash"
    by (simp add: run_simps)
  have c: "makeAuthJson ?x1 ?child = Inr ?auth"
    by (simp add: makeAuthJson_def getLoginOtp_def run_simps)
  have d: "updateTree ?T ?tg (kitLogin ?x1 (kit_login ?K)) cloneNode = Inr ?newT"
    by (simp add: kitLogin_def run_simps)
  have e: "updateTree ?stash ?tg (kitStash (kit_stash ?K)) cloneNode = Inr ?newS"
    by (simp add: kitStash_def run_simps)
  have "applyKit ?x1 ?T ?K
          = (case saveStash ?x1 ?newS of
               (Inl e, effects) \<Rightarrow> (Inl e, ?call # effects)
             | (Inr u, effects) \<Rightarrow> (Inr ?newT, ?call # effects))"
    using a b c d e
    by - (rule found[where login = ?child and others = "[]" and stashTree = ?stash,
                     THEN conjunct2, rule_format,
                     THEN conjunct2, THEN conjunct2, rule_format, THEN conjunct1];
          simp add: run_simps)
  then have 1: ?run1
    by (simp add: saveStash_def run_simps)
  have "applyKit ?x2 ?T ?K = (Inl ServerError, [?call])"
    using a
    by - (rule found[where login = ?child and others = "[]"
                     and stashTree = "(Node [(''username'', Str ''edge''), (''appId'', Str []), (''loginId'', Str ''AAAAAAAAAAAAAAAAAAAAAAAAAAAAAAAA'')] None)",
                   THEN conjunct1, rule_format];
          simp add: makeAuthJson_def getLoginOtp_def run_simps)
  then have 2: ?run2
    by simp
  have 3: ?run3
    by (rule applyKit_order[THEN conjunct1, rule_format])
       (auto simp add: allNodes_Node run_simps)
  from 1 2 3 show ?thesis by blast
qed


text \<open>
  Claim C10, as the code has it. When the root of the login tree has no username
  (\<open>undefined\<close>, \<open>null\<close> or the empty string), \<open>syncLogin\<close> fails with
  'Cannot sync: missing username' and \<open>applyKit\<close> fails too, both before any server
  request and any write. \<open>applyKit\<close> looks for the kit's target first: its error is
  'Cannot apply kit: missing username' when the target is in the tree and
  'Cannot apply kit: missing login' when it is not.
\<close>

theorem username_required:
  assumes "\<not> truthy (getp loginTree ''username'')"
  shows "applyKit x loginTree kit =
           (case searchTree loginTree (\<lambda>login. strictEq (getp login ''loginId'') (kit_loginId kit)) of
              None \<Rightarrow> (Inl MissingLogin, [])
            | Some login \<Rightarrow> (Inl KitMissingUsername, []))
         \<and> syncLogin x loginTree login = (Inl SyncMissingUsername, [])"
  using assms by (simp add: applyKit_def syncLogin_def Let_def split: option.splits)


theorem username_required_witness:
  "\<not> truthy (getp (Node [(''loginId'', Str ''A''), (''username'', Str []), (''loginAuth'', Bytes [1])] None) ''username'')
   \<and> applyKit testExt (Node [(''loginId'', Str ''A''), (''username'', Str []), (''loginAuth'', Bytes [1])] None)
        \<lparr>kit_loginId = Str ''A'', kit_serverMethod = None, kit_serverPath = ''/v2/login/otp'',
         kit_server = Undefined, kit_stash = Node [] None, kit_login = Node [] None\<rparr>
       = (Inl KitMissingUsername, [])
   \<and> syncLogin testExt (Node [(''loginId'', Str ''A''), (''username'', Str []), (''loginAuth'', Bytes [1])] None)
         (Node [(''loginId'', Str ''A''), (''username'', Str []), (''loginAuth'', Bytes [1])] None)
       = (Inl SyncMissingUsername, [])"
  using username_required[of "Node [(''loginId'', Str ''A''), (''username'', Str []), (''loginAuth'', Bytes [1])] None"
      testExt "\<lparr>kit_loginId = Str ''A'', kit_serverMethod = None, kit_serverPath = ''/v2/login/otp'',
         kit_server = Undefined, kit_stash = Node [] None, kit_login = Node [] None\<rparr>"
      "Node [(''loginId'', Str ''A''), (''username'', Str []), (''loginAuth'', Bytes [1])] None"]
  by (simp add: searchTree_Node getp_def lookup_def strictEq_def)


text \<open>
  The claim as stated names 'missing username' as the error of \<open>applyKit\<close> for every
  login tree without a username. For a kit whose \<open>loginId\<close> is not in such a tree the
  error is 'missing login'.
\<close>

theorem applyKit_missing_login_counterexample:
  "\<not> truthy (getp (Node [(''loginId'', Str ''A''), (''loginAuth'', Bytes [1])] None) ''username'')
   \<and> applyKit testExt (Node [(''loginId'', Str ''A''), (''loginAuth'', Bytes [1])] None)
        \<lparr>kit_loginId = Str ''B'', kit_serverMethod = None, kit_serverPath = ''/v2/login/otp'',
         kit_server = Undefined, kit_stash = Node [] None, kit_login = Node [] None\<rparr>
       = (Inl MissingLogin, [])
   \<and> MissingLogin \<noteq> KitMissingUsername"
  by (simp add: applyKit_def searchTree_Node getp_def lookup_def strictEq_def)


section \<open>Properties of sanitizeLoginStash\<close>

lemma sanitize_unfold:
  "sanitizeLoginStash s a =
     (if strictEq (getp s ''appId'') a then Inr s
      else bindE (mapE (\<lambda>c. sanitizeLoginStash c a) (childrenOrEmpty s))
              (\<lambda>cs. Inr (Node (props (filterObject s [''username'', ''appId'', ''loginId''])) (Some cs))))"
  unfolding sanitizeLoginStash_def by (subst updateTree.simps) simp

lemma sanitize_shape:
  fixes a :: val
  defines "p \<equiv> (\<lambda>n. strictEq (getp n ''appId'') a)"
  defines "F \<equiv> (\<lambda>n. props (filterObject n [''username'', ''appId'', ''loginId'']))"
  shows "\<exists>r. sanitizeLoginStash s a = Inr r \<and> sanitizeLoginStash r a = Inr r
           \<and> matchedNodes p r = matchedNodes p s
           \<and> map props (outerNodes p r) = map F (outerNodes p s)
           \<and> (\<forall>n\<in>set (outerNodes p r). children n \<noteq> None)"
proof (induction s rule: allNodes.induct)
  case (1 s)
  show ?case
  proof (cases "p s")
    case True
    then show ?thesis
      by (auto simp: sanitize_unfold[of s] p_def outerNodes.simps[of _ s])
  next
    case False
    let ?keys = "[''username'', ''appId'', ''loginId'']"
    let ?kids = "childrenOrEmpty s"
    have "\<forall>c\<in>set ?kids. \<exists>r. sanitizeLoginStash c a = Inr r \<and> sanitizeLoginStash r a = Inr r
           \<and> matchedNodes p r = matchedNodes p c
           \<and> map props (outerNodes p r) = map F (outerNodes p c)
           \<and> (\<forall>n\<in>set (outerNodes p r). children n \<noteq> None)"
      using 1 by blast
    then obtain g where g: "\<forall>c\<in>set ?kids. sanitizeLoginStash c a = Inr (g c) \<and> sanitizeLoginStash (g c) a = Inr (g c)
           \<and> matchedNodes p (g c) = matchedNodes p c
           \<and> map props (outerNodes p (g c)) = map F (outerNodes p c)
           \<and> (\<forall>n\<in>set (outerNodes p (g c)). children n \<noteq> None)"
      by metis
    have m1: "mapE (\<lambda>c. sanitizeLoginStash c a) ?kids = Inr (map g ?kids)"
      by (rule mapE_Inr_I) (simp add: list_all2_map2 list.rel_refl_strong g)
    have m2: "mapE (\<lambda>c. sanitizeLoginStash c a) (map g ?kids) = Inr (map g ?kids)"
      by (rule mapE_Inr_I) (simp add: list_all2_map2 list_all2_map1 list.rel_refl_strong g)
    let ?r = "Node (F s) (Some (map g ?kids))"
    have r: "sanitizeLoginStash s a = Inr ?r"
      using False by (subst sanitize_unfold) (simp add: m1 bindE_def p_def F_def)
    have kids_r: "childrenOrEmpty ?r = map g ?kids"
      by (simp add: childrenOrEmpty_def)
    have "getp ?r ''appId'' = getp s ''appId''"
      by (simp add: getp_filterObject F_def)
    then have pr: "\<not> p ?r" using False by (simp add: p_def)
    have "props (filterObject ?r ?keys) = props ?r"
      using filterObject_idem[of ?keys s] by (simp add: F_def)
    then have rr: "sanitizeLoginStash ?r a = Inr ?r"
      using pr kids_r by (subst sanitize_unfold) (simp add: m2 bindE_def p_def)
    have mm: "matchedNodes p ?r = matchedNodes p s"
    proof -
      have "matchedNodes p ?r = concat (map (matchedNodes p) (map g ?kids))"
        using pr kids_r by (simp add: matchedNodes.simps[of p ?r])
      also have "\<dots> = concat (map (matchedNodes p) ?kids)"
        using g by (simp add: comp_def cong: map_cong)
      also have "\<dots> = matchedNodes p s"
        using False by (simp add: matchedNodes.simps[of p s])
      finally show ?thesis .
    qed
    have oo: "map props (outerNodes p ?r) = map F (outerNodes p s)"
    proof -
      have "map props (outerNodes p ?r) = F s # concat (map (\<lambda>c. map props (outerNodes p (g c))) ?kids)"
        using pr kids_r by (simp add: outerNodes.simps[of p ?r] map_concat comp_def)
      also have "\<dots> = F s # concat (map (\<lambda>c. map F (outerNodes p c)) ?kids)"
        using g by (simp cong: map_cong)
      also have "\<dots> = map F (outerNodes p s)"
        using False by (simp add: outerNodes.simps[of p s] map_concat comp_def)
      finally show ?thesis .
    qed
    have cc: "\<forall>n\<in>set (outerNodes p ?r). children n \<noteq> None"
      using pr kids_r g by (auto simp: outerNodes.simps[of p ?r])
    from r rr mm oo cc show ?thesis by blast
  qed
qed

text \<open>
  Claim C7, as the code has it. \<open>sanitizeLoginStash\<close> never fails and is idempotent:
  sanitizing its result again for the same \<open>appId\<close> gives the result back. In the
  result, each matching node that has no matching ancestor is the node of the input
  unchanged, together with its whole subtree; every node outside those subtrees has the
  properties \<open>username\<close>, \<open>appId\<close> and \<open>loginId\<close> of the input node (each when the
  input node has it), no other property, and a \<open>children\<close> array.
\<close>

theorem sanitizeLoginStash_idempotent:
  "\<exists>r. sanitizeLoginStash stash a = Inr r \<and> sanitizeLoginStash r a = Inr r
      \<and> matchedNodes (\<lambda>n. strictEq (getp n ''appId'') a) r
          = matchedNodes (\<lambda>n. strictEq (getp n ''appId'') a) stash
      \<and> map props (outerNodes (\<lambda>n. strictEq (getp n ''appId'') a) r)
          = map (\<lambda>n. props (filterObject n [''username'', ''appId'', ''loginId'']))
              (outerNodes (\<lambda>n. strictEq (getp n ''appId'') a) stash)
      \<and> (\<forall>n\<in>set (outerNodes (\<lambda>n. strictEq (getp n ''appId'') a) r).
            fst ` set (props n) \<subseteq> {''username'', ''appId'', ''loginId''} \<and> children n \<noteq> None)"
proof -
  let ?p = "\<lambda>n. strictEq (getp n ''appId'') a"
  let ?F = "\<lambda>n. props (filterObject n [''username'', ''appId'', ''loginId''])"
  from sanitize_shape[of stash a] obtain r where r:
    "sanitizeLoginStash stash a = Inr r" "sanitizeLoginStash r a = Inr r"
    "matchedNodes ?p r = matchedNodes ?p stash"
    "map props (outerNodes ?p r) = map ?F (outerNodes ?p stash)"
    "\<forall>n\<in>set (outerNodes ?p r). children n \<noteq> None"
    by blast
  have "fst ` set (props n) \<subseteq> {''username'', ''appId'', ''loginId''}"
    if "n \<in> set (outerNodes ?p r)" for n
  proof -
    from that have "props n \<in> set (map props (outerNodes ?p r))" by simp
    then obtain m where "props n = ?F m" unfolding r(4) by auto
    then show ?thesis using keys_filterObject[of "[''username'', ''appId'', ''loginId'']" m] by simp
  qed
  with r show ?thesis by blast
qed

theorem sanitizeLoginStash_idempotent_witness:
  "sanitizeLoginStash
     (Node [(''appId'', Str []), (''username'', Str ''edge''), (''loginId'', Str ''R''),
            (''otpKey'', Str ''K0'')]
        (Some [Node [(''appId'', Str ''app.a''), (''loginId'', Str ''A''), (''otpKey'', Str ''Ka'')] None,
               Node [(''appId'', Str ''app.b''), (''loginId'', Str ''B''), (''otpKey'', Str ''Kb'')] None]))
     (Str ''app.b'')
   = Inr (Node [(''username'', Str ''edge''), (''appId'', Str []), (''loginId'', Str ''R'')]
        (Some [Node [(''appId'', Str ''app.a''), (''loginId'', Str ''A'')] (Some []),
               Node [(''appId'', Str ''app.b''), (''loginId'', Str ''B''), (''otpKey'', Str ''Kb'')] None]))
   \<and> sanitizeLoginStash
     (Node [(''username'', Str ''edge''), (''appId'', Str []), (''loginId'', Str ''R'')]
        (Some [Node [(''appId'', Str ''app.a''), (''loginId'', Str ''A'')] (Some []),
               Node [(''appId'', Str ''app.b''), (''loginId'', Str ''B''), (''otpKey'', Str ''Kb'')] None]))
     (Str ''app.b'')
   = Inr (Node [(''username'', Str ''edge''), (''appId'', Str []), (''loginId'', Str ''R'')]
        (Some [Node [(''appId'', Str ''app.a''), (''loginId'', Str ''A'')] (Some []),
               Node [(''appId'', Str ''app.b''), (''loginId'', Str ''B''), (''otpKey'', Str ''Kb'')] None]))
   \<and> outerNodes (\<lambda>n. strictEq (getp n ''appId'') (Str ''app.b''))
       (Node [(''username'', Str ''edge''), (''appId'', Str []), (''loginId'', Str ''R'')]
        (Some [Node [(''appId'', Str ''app.a''), (''loginId'', Str ''A'')] (Some []),
               Node [(''appId'', Str ''app.b''), (''loginId'', Str ''B''), (''otpKey'', Str ''Kb'')] None]))
     = [Node [(''username'', Str ''edge''), (''appId'', Str []), (''loginId'', Str ''R'')]
        (Some [Node [(''appId'', Str ''app.a''), (''loginId'', Str ''A'')] (Some []),
               Node [(''appId'', Str ''app.b''), (''loginId'', Str ''B''), (''otpKey'', Str ''Kb'')] None]),
        Node [(''appId'', Str ''app.a''), (''loginId'', Str ''A'')] (Some [])]"
  using sanitizeLoginStash_idempotent[of
     "Node [(''appId'', Str []), (''username'', Str ''edge''), (''loginId'', Str ''R''),
            (''otpKey'', Str ''K0'')]
        (Some [Node [(''appId'', Str ''app.a''), (''loginId'', Str ''A''), (''otpKey'', Str ''Ka'')] None,
               Node [(''appId'', Str ''app.b''), (''loginId'', Str ''B''), (''otpKey'', Str ''Kb'')] None])"
     "Str ''app.b''"]
  by (simp add: sanitizeLoginStash_def outerNodes_Node updateTree_Node getp_def lookup_def has_def
        strictEq_def bindE_def filterObject_def)

text \<open>
  The claim as stated lets every node other than the matching one carry these fields
  only. A node below the matching node is such a node and keeps all its fields: here the
  root matches, and its child \<open>app.a\<close> comes back with its \<open>otpKey\<close>.
\<close>

theorem sanitizeLoginStash_descendant_counterexample:
  "sanitizeLoginStash
     (Node [(''appId'', Str []), (''username'', Str ''edge''), (''loginId'', Str ''R'')]
        (Some [Node [(''appId'', Str ''app.a''), (''loginId'', Str ''A''), (''otpKey'', Str ''Ka'')] None]))
     (Str [])
   = Inr (Node [(''appId'', Str []), (''username'', Str ''edge''), (''loginId'', Str ''R'')]
        (Some [Node [(''appId'', Str ''app.a''), (''loginId'', Str ''A''), (''otpKey'', Str ''Ka'')] None]))
   \<and> Node [(''appId'', Str ''app.a''), (''loginId'', Str ''A''), (''otpKey'', Str ''Ka'')] None
       \<in> set (allNodes (Node [(''appId'', Str []), (''username'', Str ''edge''), (''loginId'', Str ''R'')]
        (Some [Node [(''appId'', Str ''app.a''), (''loginId'', Str ''A''), (''otpKey'', Str ''Ka'')] None])))
   \<and> \<not> strictEq (getp (Node [(''appId'', Str ''app.a''), (''loginId'', Str ''A''), (''otpKey'', Str ''Ka'')] None) ''appId'') (Str [])
   \<and> has ''otpKey'' (props (Node [(''appId'', Str ''app.a''), (''loginId'', Str ''A''), (''otpKey'', Str ''Ka'')] None))"
  by (simp add: sanitizeLoginStash_def allNodes_Node updateTree_Node getp_def lookup_def has_def
        strictEq_def)


section \<open>Facts about the reply reconciler\<close>

lemma has_update: "has f (AList.update k v ps) \<longleftrightarrow> f = k \<or> has f ps"
  by (simp add: has_def update_conv')

lemma lookup_update: "lookup (AList.update k v ps) f = (if f = k then v else lookup ps f)"
  by (simp add: lookup_def update_conv')

lemma has_preserve:
  "has f (props (preserve stash key out)) \<longleftrightarrow> (f = key \<and> notNull (getp stash key)) \<or> has f (props out)"
  by (simp add: preserve_def setp_def has_update)

lemma getp_preserve:
  "getp (preserve stash key out) f =
     (if f = key \<and> notNull (getp stash key) then getp stash key else getp out f)"
  by (simp add: preserve_def setp_def getp_def lookup_update)

lemma children_preserve: "children (preserve stash key out) = children out"
  by (simp add: preserve_def setp_def)

lemma storeKey_Inr:
  "storeKey x reply loginKey box key out = Inr out' \<Longrightarrow>
     (if notNull (getp reply box)
      then \<exists>k. decrypt x (getp reply box) loginKey = Some k
               \<and> out' = setp key (base64_stringify x k) out
      else out' = out)"
  by (auto simp: storeKey_def bindE_def orThrow_def split: if_splits option.splits)

lemma distinct_allowlist: "distinct allowlist"
  by (simp add: allowlist_def)

lemma has_filterObject_node:
  "distinct keys \<Longrightarrow> has k (props (filterObject s keys)) \<longleftrightarrow> k \<in> set keys \<and> has k (props s)"
  by (rule has_filterObject)

lemma getp_filterObject':
  "distinct keys \<Longrightarrow> getp (filterObject s keys) k = (if k \<in> set keys then getp s k else Undefined)"
  using getp_filterObject[of keys s "children (filterObject s keys)" k] by simp

lemma mapE_length: "mapE f xs = Inr ys \<Longrightarrow> length ys = length xs"
  by (drule mapE_Inr_D) (simp add: list_all2_lengthD)

lemma applyLoginReplyInner_Inr:
  assumes "applyLoginReplyInner x stash loginKey reply = Inr out"
  shows "\<exists>out1 out2 cs.
           storeKey x reply loginKey ''pin2KeyBox'' ''pin2Key'' (kept stash reply) = Inr out1
         \<and> storeKey x reply loginKey ''recovery2KeyBox'' ''recovery2Key'' out1 = Inr out2
         \<and> out = Node (AList.update ''keyBoxes''
                          (if notNull (getp reply ''keyBoxes'') then getp reply ''keyBoxes'' else Arr [])
                          (props out2)) (Some cs)
         \<and> length cs = length (childrenOrEmpty reply)
         \<and> length (childrenOrEmpty stash) \<le> length (childrenOrEmpty reply)"
  using assms
  apply (subst (asm) applyLoginReplyInner.simps)
  apply (auto simp: Let_def bindE_def kept_def setp_def split: sum.splits if_splits dest!: mapE_length)
  done

lemma has_kept:
  "has f (props (kept stash reply)) \<longleftrightarrow>
     (f \<in> {''lastLogin'', ''username'', ''userId''} \<and> notNull (getp stash f))
     \<or> (f \<in> set allowlist \<and> has f (props reply))"
  by (auto simp: kept_def has_preserve has_filterObject distinct_allowlist)

lemma getp_kept:
  "getp (kept stash reply) f =
     (if f \<in> {''lastLogin'', ''username'', ''userId''} \<and> notNull (getp stash f) then getp stash f
      else if f \<in> set allowlist then getp reply f else Undefined)"
  by (auto simp: kept_def getp_preserve getp_filterObject' distinct_allowlist)

lemma has_setp: "has f (props (setp k v n)) \<longleftrightarrow> f = k \<or> has f (props n)"
  by (simp add: setp_def has_update)

lemma getp_setp: "getp (setp k v n) f = (if f = k then v else getp n f)"
  by (simp add: setp_def getp_def lookup_update)

lemma getp_Node_update:
  "getp (Node (AList.update k v ps) cs) f = (if f = k then v else lookup ps f)"
  by (simp add: getp_def lookup_update)

lemma allowlist_names:
  "''lastLogin'' \<notin> set allowlist" "''username'' \<notin> set allowlist" "''pin2Key'' \<notin> set allowlist"
  "''recovery2Key'' \<notin> set allowlist" "''keyBoxes'' \<notin> set allowlist" "''userId'' \<in> set allowlist"
  by (simp_all add: allowlist_def)

lemma applyLoginReplyInner_getp:
  assumes "applyLoginReplyInner x stash loginKey reply = Inr out"
    and "f \<notin> {''keyBoxes'', ''pin2Key'', ''recovery2Key''}"
  shows "getp out f = getp (kept stash reply) f"
proof -
  from applyLoginReplyInner_Inr[OF assms(1)] obtain out1 out2 cs where
    o1: "storeKey x reply loginKey ''pin2KeyBox'' ''pin2Key'' (kept stash reply) = Inr out1" and
    o2: "storeKey x reply loginKey ''recovery2KeyBox'' ''recovery2Key'' out1 = Inr out2" and
    out: "out = Node (AList.update ''keyBoxes''
                          (if notNull (getp reply ''keyBoxes'') then getp reply ''keyBoxes'' else Arr [])
                          (props out2)) (Some cs)"
    by blast
  have "getp out f = getp out2 f"
    using assms(2) by (simp add: out getp_def lookup_update)
  also have "\<dots> = getp out1 f"
    using storeKey_Inr[OF o2] assms(2) by (auto simp: getp_setp split: if_splits)
  also have "\<dots> = getp (kept stash reply) f"
    using storeKey_Inr[OF o1] assms(2) by (auto simp: getp_setp split: if_splits)
  finally show ?thesis .
qed

lemma updateTree_root:
  "updateTree n predicate update clone = Inr n' \<Longrightarrow>
     (predicate n \<and> update n = Inr n') \<or>
     (\<not> predicate n \<and> (\<exists>cs. clone n cs = Inr n'))"
  by (subst (asm) updateTree.simps) (auto simp: bindE_def split: if_splits sum.splits)

lemmas applyLoginReplyInner_Node = applyLoginReplyInner.simps[of _ _ _ "Node ps cs"] for ps cs

lemmas reply_simps =
  applyLoginReplyInner_Node applyLoginReply_def preserve_def storeKey_def allowlist_def
  childrenOrEmpty_def

lemma list_all2_zip_upt:
  assumes "list_all2 P (zip xs [0..<length xs]) ys" and "i < length xs"
  shows "P (xs ! i, i) (ys ! i)"
proof -
  have "length (zip xs [0..<length xs]) = length xs" by simp
  with assms have "P (zip xs [0..<length xs] ! i) (ys ! i)"
    using list_all2_nthD[OF assms(1), of i] by simp
  with assms(2) show ?thesis by simp
qed

lemma applyLoginReplyInner_children:
  assumes "applyLoginReplyInner x stash loginKey reply = Inr out"
  shows "\<exists>cs. children out = Some cs \<and> length cs = length (childrenOrEmpty reply)
          \<and> (\<forall>i<length (childrenOrEmpty reply).
                truthy (getp (childrenOrEmpty reply ! i) ''parentBox'')
              \<and> (\<exists>childKey.
                    decrypt x (getp (childrenOrEmpty reply ! i) ''parentBox'') loginKey = Some childKey
                  \<and> applyLoginReplyInner x (childStashOf stash reply i) childKey
                        (childrenOrEmpty reply ! i) = Inr (cs ! i)))"
proof -
  let ?sc = "childrenOrEmpty stash" and ?rc = "childrenOrEmpty reply"
  let ?f = "\<lambda>(child, index).
                  if \<not> truthy (getp child ''parentBox'') then Inl KeyIntegrity
                  else bindE (orThrow DecryptError (decrypt x (getp child ''parentBox'') loginKey))
                    (\<lambda>childKey.
                       let childStash =
                             (if index < length ?sc then ?sc ! index
                              else Node [(''appId'', getp child ''appId''),
                                         (''loginId'', getp child ''loginId'')] None)
                       in applyLoginReplyInner x childStash childKey child)"
  from assms obtain cs where cs: "children out = Some cs"
    and m: "mapE ?f (zip ?rc [0..<length ?rc]) = Inr cs"
    by (subst (asm) applyLoginReplyInner.simps)
       (auto simp: Let_def bindE_def split: sum.splits if_splits)
  have len: "length cs = length ?rc" using mapE_length[OF m] by simp
  have "truthy (getp (?rc ! i) ''parentBox'')
              \<and> (\<exists>childKey.
                    decrypt x (getp (?rc ! i) ''parentBox'') loginKey = Some childKey
                  \<and> applyLoginReplyInner x (childStashOf stash reply i) childKey (?rc ! i) = Inr (cs ! i))"
    if "i < length ?rc" for i
    using list_all2_zip_upt[OF mapE_Inr_D[OF m] that]
    by (auto simp: bindE_def orThrow_def Let_def childStashOf_def split: if_splits option.splits)
  with cs len show ?thesis by blast
qed

lemma applyLoginReplyInner_root_names:
  assumes "applyLoginReplyInner x stash loginKey reply = Inr out" and "f \<notin> outputNames"
  shows "\<not> has f (props out)"
proof -
  from applyLoginReplyInner_Inr[OF assms(1)] obtain out1 out2 cs where
    o1: "storeKey x reply loginKey ''pin2KeyBox'' ''pin2Key'' (kept stash reply) = Inr out1" and
    o2: "storeKey x reply loginKey ''recovery2KeyBox'' ''recovery2Key'' out1 = Inr out2" and
    out: "out = Node (AList.update ''keyBoxes''
                          (if notNull (getp reply ''keyBoxes'') then getp reply ''keyBoxes'' else Arr [])
                          (props out2)) (Some cs)"
    by blast
  have "has f (props out) \<longleftrightarrow> f = ''keyBoxes'' \<or> has f (props out2)"
    by (simp add: out has_update)
  moreover have "has f (props out2) \<longleftrightarrow>
      (f = ''recovery2Key'' \<and> notNull (getp reply ''recovery2KeyBox'')) \<or> has f (props out1)"
    using storeKey_Inr[OF o2] by (auto simp: has_setp split: if_splits)
  moreover have "has f (props out1) \<longleftrightarrow>
      (f = ''pin2Key'' \<and> notNull (getp reply ''pin2KeyBox'')) \<or> has f (props (kept stash reply))"
    using storeKey_Inr[OF o1] by (auto simp: has_setp split: if_splits)
  ultimately show ?thesis
    using assms(2) allowlist_names by (auto simp: has_kept outputNames_def)
qed

lemma applyLoginReplyInner_all_names:
  "applyLoginReplyInner x stash loginKey reply = Inr out \<Longrightarrow>
     \<forall>n\<in>set (allNodes out). \<forall>f. f \<notin> outputNames \<longrightarrow> \<not> has f (props n)"
proof (induction reply arbitrary: stash loginKey out rule: allNodes.induct)
  case (1 reply)
  from applyLoginReplyInner_children[OF "1.prems"] obtain cs where
    cs: "children out = Some cs" "length cs = length (childrenOrEmpty reply)" and
    rec: "\<forall>i<length (childrenOrEmpty reply).
             \<exists>childKey. applyLoginReplyInner x (childStashOf stash reply i) childKey
                        (childrenOrEmpty reply ! i) = Inr (cs ! i)"
    by blast
  have below: "\<forall>n\<in>set (allNodes c). \<forall>f. f \<notin> outputNames \<longrightarrow> \<not> has f (props n)"
    if "c \<in> set cs" for c
  proof -
    from that obtain i where i: "i < length cs" "cs ! i = c" by (auto simp: in_set_conv_nth)
    with rec cs obtain childKey where
      "applyLoginReplyInner x (childStashOf stash reply i) childKey (childrenOrEmpty reply ! i) = Inr c"
      by auto
    moreover have "childrenOrEmpty reply ! i \<in> set (childrenOrEmpty reply)"
      using i cs by simp
    ultimately show ?thesis using "1.IH" by blast
  qed
  have "set (allNodes out) = insert out (\<Union>c\<in>set cs. set (allNodes c))"
    using cs by (subst allNodes.simps) (simp add: childrenOrEmpty_def)
  then show ?case
    using below applyLoginReplyInner_root_names[OF "1.prems"] by auto
qed

section \<open>Properties of the reply reconciler: the fields of the output\<close>

text \<open>
  Claim C1, as the code has it. In the stash node that \<open>applyLoginReplyInner\<close> builds
  for a reply (the node \<open>applyLoginReply\<close> puts in the place of the matched one):
  \<^item> a property whose name is neither on the allowlist nor one of \<open>keyBoxes\<close>,
    \<open>lastLogin\<close>, \<open>username\<close>, \<open>pin2Key\<close>, \<open>recovery2Key\<close> is absent;
  \<^item> an allowlisted property is there exactly when the reply has it, with the reply's
    value (\<open>userId\<close> only when the previous stash has none);
  \<^item> \<open>keyBoxes\<close> is always there: the reply's value, or \<open>[]\<close> when the reply has none;
  \<^item> \<open>children\<close> is rebuilt and has one entry for each child of the reply: every
    child of the reply has a \<open>parentBox\<close> that decrypts under the login key, and entry
    \<open>i\<close> is the node that \<open>applyLoginReplyInner\<close> builds, under the decrypted key, for
    child \<open>i\<close> of the reply and child \<open>i\<close> of the previous stash (or, when the stash
    has no such child, the \<open>appId\<close> and \<open>loginId\<close> of the reply's child);
  \<^item> hence no node of the output, at any depth, has a property whose name is neither
    on the allowlist nor one of the five names above;
  \<^item> \<open>lastLogin\<close>, \<open>username\<close> and \<open>userId\<close> hold the previous stash's value when it
    has one, and \<open>lastLogin\<close> and \<open>username\<close> are absent otherwise, whatever the reply
    holds under these names;
  \<^item> \<open>pin2Key\<close> and \<open>recovery2Key\<close> are there exactly when the reply has a
    \<open>pin2KeyBox\<close> or \<open>recovery2KeyBox\<close>, and hold the key decrypted from it.
\<close>

theorem applyLoginReplyInner_fields:
  assumes "applyLoginReplyInner x stash loginKey reply = Inr out"
  shows "(\<forall>f. f \<notin> set allowlist \<union> {''keyBoxes'', ''lastLogin'', ''username'', ''pin2Key'', ''recovery2Key''}
            \<longrightarrow> \<not> has f (props out))
       \<and> (\<forall>f\<in>set allowlist. f \<noteq> ''userId'' \<or> \<not> notNull (getp stash ''userId'')
            \<longrightarrow> has f (props out) = has f (props reply) \<and> getp out f = getp reply f)
       \<and> getp out ''keyBoxes''
            = (if notNull (getp reply ''keyBoxes'') then getp reply ''keyBoxes'' else Arr [])
       \<and> (\<exists>cs. children out = Some cs \<and> length cs = length (childrenOrEmpty reply)
            \<and> (\<forall>i<length (childrenOrEmpty reply).
                  truthy (getp (childrenOrEmpty reply ! i) ''parentBox'')
                \<and> (\<exists>childKey.
                      decrypt x (getp (childrenOrEmpty reply ! i) ''parentBox'') loginKey = Some childKey
                    \<and> applyLoginReplyInner x (childStashOf stash reply i) childKey
                          (childrenOrEmpty reply ! i) = Inr (cs ! i))))
       \<and> (\<forall>n\<in>set (allNodes out).
             \<forall>f. f \<notin> set allowlist \<union> {''keyBoxes'', ''lastLogin'', ''username'', ''pin2Key'', ''recovery2Key''}
               \<longrightarrow> \<not> has f (props n))
       \<and> (\<forall>f\<in>{''lastLogin'', ''username'', ''userId''}. notNull (getp stash f)
            \<longrightarrow> getp out f = getp stash f)
       \<and> (\<forall>f\<in>{''lastLogin'', ''username''}. \<not> notNull (getp stash f) \<longrightarrow> \<not> has f (props out))
       \<and> (if notNull (getp reply ''pin2KeyBox'')
           then \<exists>key. decrypt x (getp reply ''pin2KeyBox'') loginKey = Some key
                  \<and> getp out ''pin2Key'' = base64_stringify x key
           else \<not> has ''pin2Key'' (props out))
       \<and> (if notNull (getp reply ''recovery2KeyBox'')
           then \<exists>key. decrypt x (getp reply ''recovery2KeyBox'') loginKey = Some key
                  \<and> getp out ''recovery2Key'' = base64_stringify x key
           else \<not> has ''recovery2Key'' (props out))"
proof -
  from applyLoginReplyInner_Inr[OF assms] obtain out1 out2 cs where
    o1: "storeKey x reply loginKey ''pin2KeyBox'' ''pin2Key'' (kept stash reply) = Inr out1" and
    o2: "storeKey x reply loginKey ''recovery2KeyBox'' ''recovery2Key'' out1 = Inr out2" and
    out: "out = Node (AList.update ''keyBoxes''
                          (if notNull (getp reply ''keyBoxes'') then getp reply ''keyBoxes'' else Arr [])
                          (props out2)) (Some cs)" and
    len: "length cs = length (childrenOrEmpty reply)"
    by blast
  note s1 = storeKey_Inr[OF o1] and s2 = storeKey_Inr[OF o2]
  have has_out: "has f (props out) \<longleftrightarrow> f = ''keyBoxes'' \<or> has f (props out2)" for f
    by (simp add: out has_update)
  have get_out: "getp out f = (if f = ''keyBoxes'' then
       (if notNull (getp reply ''keyBoxes'') then getp reply ''keyBoxes'' else Arr []) else getp out2 f)" for f
    by (simp add: out getp_def lookup_update)
  have has2: "has f (props out2) \<longleftrightarrow>
      (f = ''recovery2Key'' \<and> notNull (getp reply ''recovery2KeyBox'')) \<or> has f (props out1)" for f
    using s2 by (auto simp: has_setp split: if_splits)
  have has1: "has f (props out1) \<longleftrightarrow>
      (f = ''pin2Key'' \<and> notNull (getp reply ''pin2KeyBox'')) \<or> has f (props (kept stash reply))" for f
    using s1 by (auto simp: has_setp split: if_splits)
  have get2: "f \<noteq> ''recovery2Key'' \<Longrightarrow> getp out2 f = getp out1 f" for f
    using s2 by (auto simp: getp_setp split: if_splits)
  have get1: "f \<noteq> ''pin2Key'' \<Longrightarrow> getp out1 f = getp (kept stash reply) f" for f
    using s1 by (auto simp: getp_setp split: if_splits)
  have A: "\<forall>f. f \<notin> set allowlist \<union> {''keyBoxes'', ''lastLogin'', ''username'', ''pin2Key'', ''recovery2Key''}
            \<longrightarrow> \<not> has f (props out)"
    using allowlist_names by (auto simp: has_out has2 has1 has_kept)
  have B: "\<forall>f\<in>set allowlist. f \<noteq> ''userId'' \<or> \<not> notNull (getp stash ''userId'')
            \<longrightarrow> has f (props out) = has f (props reply) \<and> getp out f = getp reply f"
  proof (intro ballI impI)
    fix f assume f: "f \<in> set allowlist" and u: "f \<noteq> ''userId'' \<or> \<not> notNull (getp stash ''userId'')"
    from f allowlist_names have ne: "f \<noteq> ''keyBoxes''" "f \<noteq> ''lastLogin''" "f \<noteq> ''username''"
      "f \<noteq> ''pin2Key''" "f \<noteq> ''recovery2Key''" by auto
    show "has f (props out) = has f (props reply) \<and> getp out f = getp reply f"
      using f u ne by (auto simp: has_out has2 has1 has_kept get_out get2 get1 getp_kept)
  qed
  have C: "getp out ''keyBoxes''
            = (if notNull (getp reply ''keyBoxes'') then getp reply ''keyBoxes'' else Arr [])"
    by (simp add: get_out)
  note D = applyLoginReplyInner_children[OF assms]
  note I = applyLoginReplyInner_all_names[OF assms, unfolded outputNames_def]
  have E: "\<forall>f\<in>{''lastLogin'', ''username'', ''userId''}. notNull (getp stash f)
            \<longrightarrow> getp out f = getp stash f"
    by (auto simp: get_out get2 get1 getp_kept)
  have F: "\<forall>f\<in>{''lastLogin'', ''username''}. \<not> notNull (getp stash f) \<longrightarrow> \<not> has f (props out)"
    using allowlist_names by (auto simp: has_out has2 has1 has_kept)
  have G: "if notNull (getp reply ''pin2KeyBox'')
           then \<exists>key. decrypt x (getp reply ''pin2KeyBox'') loginKey = Some key
                  \<and> getp out ''pin2Key'' = base64_stringify x key
           else \<not> has ''pin2Key'' (props out)"
    using s1 allowlist_names by (auto simp: get_out get2 getp_setp has_out has2 has1 has_kept split: if_splits)
  have H: "if notNull (getp reply ''recovery2KeyBox'')
           then \<exists>key. decrypt x (getp reply ''recovery2KeyBox'') loginKey = Some key
                  \<and> getp out ''recovery2Key'' = base64_stringify x key
           else \<not> has ''recovery2Key'' (props out)"
    using s2 allowlist_names by (auto simp: get_out getp_setp has_out has2 has1 has_kept split: if_splits)
  from A B C D I E F G H show ?thesis by blast
qed


theorem applyLoginReplyInner_fields_witness:
  "applyLoginReplyInner testExt
     (Node [(''appId'', Str []), (''username'', Str ''edge''), (''lastLogin'', Num 5)]
        (Some [Node [(''appId'', Str ''app.a''), (''loginId'', Str ''A''), (''lastLogin'', Num 3)] None]))
     (Bytes [7])
     (Node [(''appId'', Str []), (''loginId'', Str ''L''), (''username'', Str ''mallory''),
            (''pin2KeyBox'', Obj [(''key'', Bytes [7]), (''data'', Bytes [1, 2])]),
            (''pin2Box'', Str ''p''), (''keyBoxes'', Arr [Str ''box''])]
        (Some [Node [(''appId'', Str ''app.a''), (''loginId'', Str ''A''),
                     (''parentBox'', Obj [(''key'', Bytes [7]), (''data'', Bytes [8])]),
                     (''pin2Box'', Str ''q''), (''lastLogin'', Num 9)] None,
               Node [(''appId'', Str ''app.b''), (''loginId'', Str ''B''),
                     (''parentBox'', Obj [(''key'', Bytes [7]), (''data'', Bytes [9])]),
                     (''question2Box'', Str ''r'')] None]))
   = Inr (Node [(''appId'', Str []), (''loginId'', Str ''L''), (''lastLogin'', Num 5),
                (''username'', Str ''edge''), (''pin2Key'', Bytes [1, 2]),
                (''keyBoxes'', Arr [Str ''box''])]
            (Some [Node [(''appId'', Str ''app.a''), (''loginId'', Str ''A''),
                         (''parentBox'', Obj [(''key'', Bytes [7]), (''data'', Bytes [8])]),
                         (''lastLogin'', Num 3), (''keyBoxes'', Arr [])] (Some []),
                   Node [(''appId'', Str ''app.b''), (''loginId'', Str ''B''),
                         (''parentBox'', Obj [(''key'', Bytes [7]), (''data'', Bytes [9])]),
                         (''keyBoxes'', Arr [])] (Some [])]))
   \<and> \<not> has ''pin2Box''
       (props (Node [(''appId'', Str []), (''loginId'', Str ''L''), (''lastLogin'', Num 5),
                (''username'', Str ''edge''), (''pin2Key'', Bytes [1, 2]),
                (''keyBoxes'', Arr [Str ''box''])]
            (Some [Node [(''appId'', Str ''app.a''), (''loginId'', Str ''A''),
                         (''parentBox'', Obj [(''key'', Bytes [7]), (''data'', Bytes [8])]),
                         (''lastLogin'', Num 3), (''keyBoxes'', Arr [])] (Some []),
                   Node [(''appId'', Str ''app.b''), (''loginId'', Str ''B''),
                         (''parentBox'', Obj [(''key'', Bytes [7]), (''data'', Bytes [9])]),
                         (''keyBoxes'', Arr [])] (Some [])])))
   \<and> \<not> has ''pin2Box''
       (props (Node [(''appId'', Str ''app.a''), (''loginId'', Str ''A''),
                     (''parentBox'', Obj [(''key'', Bytes [7]), (''data'', Bytes [8])]),
                     (''lastLogin'', Num 3), (''keyBoxes'', Arr [])] (Some [])))
   \<and> \<not> has ''question2Box''
       (props (Node [(''appId'', Str ''app.b''), (''loginId'', Str ''B''),
                     (''parentBox'', Obj [(''key'', Bytes [7]), (''data'', Bytes [9])]),
                     (''keyBoxes'', Arr [])] (Some [])))"
  (is "?run \<and> ?absent")
proof -
  have run: ?run
    by (simp add: reply_simps run_simps)
  from applyLoginReplyInner_fields[OF run] run show ?thesis
    by (simp add: has_def)
qed


text \<open>
  The claim as stated has every reply field outside the allowlist absent from the
  output. \<open>keyBoxes\<close> is not on the allowlist, and the output holds the reply's.
\<close>

theorem applyLoginReply_keyBoxes_counterexample:
  "applyLoginReply testExt (Node [(''appId'', Str [])] None) (Bytes [7])
     (Node [(''appId'', Str []), (''loginId'', Str ''L''), (''keyBoxes'', Arr [Str ''box''])] None)
   = Inr (Node [(''appId'', Str []), (''loginId'', Str ''L''), (''keyBoxes'', Arr [Str ''box''])]
            (Some []))
   \<and> has ''keyBoxes''
       (props (Node [(''appId'', Str []), (''loginId'', Str ''L''), (''keyBoxes'', Arr [Str ''box''])] None))
   \<and> ''keyBoxes'' \<notin> set allowlist
   \<and> has ''keyBoxes''
       (props (Node [(''appId'', Str []), (''loginId'', Str ''L''), (''keyBoxes'', Arr [Str ''box''])]
            (Some [])))"
  by (simp add: reply_simps run_simps)


section \<open>Properties of the reply reconciler and the tree builder: loginId\<close>

lemma whenPresent_getp:
  "whenPresent stash box key f login = Inr login' \<Longrightarrow> g \<noteq> key \<Longrightarrow> getp login' g = getp login g"
  by (auto simp: whenPresent_def bindE_def getp_setp split: if_splits sum.splits)

lemma makeLoginTreeInner_loginId:
  assumes "makeLoginTreeInner x stash loginKey = Inr tree"
  shows "getp tree ''loginId'' = getp stash ''loginId''"
proof -
  from assms obtain l1 l2 l3 l4 l5 merged cs where
    1: "whenPresent stash ''loginAuthBox'' ''loginAuth''
          (\<lambda>box. orThrow DecryptError (decrypt x box loginKey))
          (Node [(''appId'', getp stash ''appId''),
                        (''created'', getp stash ''created''),
                        (''lastLogin'', if getp stash ''lastLogin'' = Undefined then now x
                                        else getp stash ''lastLogin''),
                        (''loginId'', getp stash ''loginId''),
                        (''otpKey'', getp stash ''otpKey''),
                        (''otpResetDate'', getp stash ''otpResetDate''),
                        (''otpTimeout'', getp stash ''otpTimeout''),
                        (''userId'', getp stash ''userId''),
                        (''username'', getp stash ''username''),
                        (''loginKey'', loginKey),
                        (''keyInfos'', Arr [])] (Some [])) = Inr l1" and
    2: "whenPresent stash ''passwordAuthBox'' ''passwordAuth''
                  (\<lambda>box. orThrow DecryptError (decrypt x box loginKey))
                  (if notNull (getp stash ''passwordAuthBox'') \<and> \<not> notNull (getp l1 ''userId'')
                   then setp ''userId'' (getp stash ''loginId'') l1 else l1) = Inr l2" and
    3: "whenPresent stash ''pin2Key'' ''pin2Key''
                  (\<lambda>key. map_sum id Bytes (orThrow ParseError (base64_parse x key))) l2 = Inr l3" and
    4: "whenPresent stash ''pin2TextBox'' ''pin''
                  (\<lambda>box. orThrow DecryptError (decryptText x box loginKey)) l3 = Inr l4" and
    5: "whenPresent stash ''recovery2Key'' ''recovery2Key''
                  (\<lambda>key. map_sum id Bytes (orThrow ParseError (base64_parse x key))) l4 = Inr l5" and
    t: "tree = Node (props (setp ''keyInfos'' (Arr (map (fixWalletInfo x) merged)) l5)) (Some cs)"
    apply (subst (asm) makeLoginTreeInner.simps)
    apply (auto simp: Let_def bindE_def split: sum.splits if_splits)
    done
  have "getp tree ''loginId'' = getp l5 ''loginId''"
    by (simp add: t getp_def setp_def lookup_update)
  also have "\<dots> = getp l4 ''loginId''" by (rule whenPresent_getp[OF 5]) simp
  also have "\<dots> = getp l3 ''loginId''" by (rule whenPresent_getp[OF 4]) simp
  also have "\<dots> = getp l2 ''loginId''" by (rule whenPresent_getp[OF 3]) simp
  also have "\<dots> = getp l1 ''loginId''"
    using whenPresent_getp[OF 2, of "''loginId''"] by (simp add: getp_setp split: if_splits)
  also have "\<dots> = getp stash ''loginId''"
    using whenPresent_getp[OF 1, of "''loginId''"] by (simp add: getp_def lookup_def)
  finally show ?thesis .
qed

lemmas makeLoginTreeInner_Node = makeLoginTreeInner.simps[of _ "Node ps cs"] for ps cs

lemmas tree_simps =
  makeLoginTreeInner_Node makeLoginTree_def whenPresent_def bitidKeys_def accountKeys_def
  keyBoxInfos_def childrenOrEmpty_def

text \<open>
  Claim C4, as the code has it. When neither operation fails, the \<open>loginId\<close> of the tree
  that \<open>makeLoginTree (applyLoginReply (stash, k, r), k, r.appId)\<close> returns is \<open>r.loginId\<close>
  when the root of the stash tree has the reply's \<open>appId\<close>. Otherwise both functions
  keep the root and work below it, and the \<open>loginId\<close> of the returned tree is the one of
  the root of the stash tree.
\<close>

theorem makeLoginTree_loginId:
  assumes "applyLoginReply x stash loginKey reply = Inr stash'"
    and "makeLoginTree x stash' loginKey (getp reply ''appId'') = Inr tree"
  shows "getp tree ''loginId'' =
           (if strictEq (getp stash ''appId'') (getp reply ''appId'')
            then getp reply ''loginId'' else getp stash ''loginId'')"
proof -
  have inner: "getp out ''loginId'' = getp reply ''loginId''"
    if "applyLoginReplyInner x stash loginKey reply = Inr out" for out
    using applyLoginReplyInner_getp[OF that, of "''loginId''"]
    by (simp add: getp_kept allowlist_def)
  have 1: "getp stash' ''loginId'' =
           (if strictEq (getp stash ''appId'') (getp reply ''appId'')
            then getp reply ''loginId'' else getp stash ''loginId'')"
    using updateTree_root[OF assms(1)[unfolded applyLoginReply_def]]
    by (auto simp: inner cloneNode_def) (simp add: getp_def)
  have 2: "getp tree ''loginId'' = getp stash' ''loginId''"
    using updateTree_root[OF assms(2)[unfolded makeLoginTree_def Let_def]]
    by (auto simp: makeLoginTreeInner_loginId getp_filterObject)
  from 1 2 show ?thesis by simp
qed


theorem makeLoginTree_loginId_witness:
  "applyLoginReply testExt
     (Node [(''appId'', Str []), (''loginId'', Str ''old''), (''username'', Str ''edge'')] None)
     (Bytes [7])
     (Node [(''appId'', Str []), (''loginId'', Str ''R''),
            (''loginAuthBox'', Obj [(''key'', Bytes [7]), (''data'', Bytes [9])])] None)
   = Inr (Node [(''appId'', Str []), (''loginId'', Str ''R''),
                (''loginAuthBox'', Obj [(''key'', Bytes [7]), (''data'', Bytes [9])]),
                (''username'', Str ''edge''), (''keyBoxes'', Arr [])] (Some []))
   \<and> makeLoginTree testExt
     (Node [(''appId'', Str []), (''loginId'', Str ''R''),
                (''loginAuthBox'', Obj [(''key'', Bytes [7]), (''data'', Bytes [9])]),
                (''username'', Str ''edge''), (''keyBoxes'', Arr [])] (Some []))
     (Bytes [7])
     (getp (Node [(''appId'', Str []), (''loginId'', Str ''R''),
            (''loginAuthBox'', Obj [(''key'', Bytes [7]), (''data'', Bytes [9])])] None) ''appId'')
   = Inr (Node [(''appId'', Str []), (''created'', Undefined), (''lastLogin'', Num 0),
                (''loginId'', Str ''R''), (''otpKey'', Undefined),
                (''otpResetDate'', Undefined), (''otpTimeout'', Undefined),
                (''userId'', Undefined), (''username'', Str ''edge''),
                (''loginKey'', Bytes [7]), (''keyInfos'', Arr []),
                (''loginAuth'', Bytes [9])] (Some []))"
  (is "?reply \<and> ?tree")
proof -
  have 1: ?reply
    by (simp add: reply_simps run_simps)
  have 2: ?tree
    by (simp add: tree_simps run_simps)
  from makeLoginTree_loginId[OF 1 2] 1 2 show ?thesis
    by simp
qed


text \<open>
  The claim as stated covers every \<open>r.appId\<close>. For a reply to the child \<open>app.a\<close> of
  the root login, neither operation fails, and the tree returned is rooted at the root
  login: its \<open>loginId\<close> is \<open>R\<close>, the reply's is \<open>A\<close>.
\<close>

theorem makeLoginTree_child_counterexample:
  "applyLoginReply testExt
     (Node [(''appId'', Str []), (''loginId'', Str ''R''), (''username'', Str ''edge''),
            (''loginAuthBox'', Obj [(''key'', Bytes [3]), (''data'', Bytes [4])])]
        (Some [Node [(''appId'', Str ''app.a''), (''loginId'', Str ''A''),
                     (''parentBox'', Obj [(''key'', Bytes [3]), (''data'', Bytes [7])])] None]))
     (Bytes [7])
     (Node [(''appId'', Str ''app.a''), (''loginId'', Str ''A''),
            (''loginAuthBox'', Obj [(''key'', Bytes [7]), (''data'', Bytes [9])]),
            (''parentBox'', Obj [(''key'', Bytes [3]), (''data'', Bytes [7])])] None)
   = Inr (Node [(''appId'', Str []), (''loginId'', Str ''R''), (''username'', Str ''edge''),
            (''loginAuthBox'', Obj [(''key'', Bytes [3]), (''data'', Bytes [4])])]
        (Some [Node [(''appId'', Str ''app.a''), (''loginId'', Str ''A''),
                     (''loginAuthBox'', Obj [(''key'', Bytes [7]), (''data'', Bytes [9])]),
                     (''parentBox'', Obj [(''key'', Bytes [3]), (''data'', Bytes [7])]),
                     (''keyBoxes'', Arr [])] (Some [])]))
   \<and> makeLoginTree testExt
     (Node [(''appId'', Str []), (''loginId'', Str ''R''), (''username'', Str ''edge''),
            (''loginAuthBox'', Obj [(''key'', Bytes [3]), (''data'', Bytes [4])])]
        (Some [Node [(''appId'', Str ''app.a''), (''loginId'', Str ''A''),
                     (''loginAuthBox'', Obj [(''key'', Bytes [7]), (''data'', Bytes [9])]),
                     (''parentBox'', Obj [(''key'', Bytes [3]), (''data'', Bytes [7])]),
                     (''keyBoxes'', Arr [])] (Some [])]))
     (Bytes [7])
     (getp (Node [(''appId'', Str ''app.a''), (''loginId'', Str ''A''),
            (''loginAuthBox'', Obj [(''key'', Bytes [7]), (''data'', Bytes [9])]),
            (''parentBox'', Obj [(''key'', Bytes [3]), (''data'', Bytes [7])])] None) ''appId'')
   = Inr (Node [(''username'', Str ''edge''), (''appId'', Str []), (''loginId'', Str ''R'')]
        (Some [Node [(''appId'', Str ''app.a''), (''created'', Undefined), (''lastLogin'', Num 0),
                     (''loginId'', Str ''A''), (''otpKey'', Undefined),
                     (''otpResetDate'', Undefined), (''otpTimeout'', Undefined),
                     (''userId'', Undefined), (''username'', Undefined),
                     (''loginKey'', Bytes [7]), (''keyInfos'', Arr []),
                     (''loginAuth'', Bytes [9])] (Some [])]))
   \<and> getp (Node [(''username'', Str ''edge''), (''appId'', Str []), (''loginId'', Str ''R'')]
        (Some [Node [(''appId'', Str ''app.a''), (''created'', Undefined), (''lastLogin'', Num 0),
                     (''loginId'', Str ''A''), (''otpKey'', Undefined),
                     (''otpResetDate'', Undefined), (''otpTimeout'', Undefined),
                     (''userId'', Undefined), (''username'', Undefined),
                     (''loginKey'', Bytes [7]), (''keyInfos'', Arr []),
                     (''loginAuth'', Bytes [9])] (Some [])])) ''loginId''
     \<noteq> getp (Node [(''appId'', Str ''app.a''), (''loginId'', Str ''A''),
            (''loginAuthBox'', Obj [(''key'', Bytes [7]), (''data'', Bytes [9])]),
            (''parentBox'', Obj [(''key'', Bytes [3]), (''data'', Bytes [7])])] None) ''loginId''"
  by (simp add: reply_simps tree_simps run_simps)


section \<open>Facts about the walk of the reply\<close>
















section \<open>The reply reconciler on a store: nothing that was there changes\<close>
























section \<open>Properties of the reply reconciler: lost children and the stash left as it was\<close>











end
